theory Spec2Isabelle
  imports Main
begin

section \<open>Python values\<close>

text \<open>
  The program of \<^verbatim>\<open>main.py\<close> moves JSON-shaped Python values around: the plan decoded
  from the oracle's answer, the parameters of a task, the result dictionaries of the agents.
  A Python \<^verbatim>\<open>str\<close> is a \<open>string\<close>; one \<open>char\<close> stands for one code point (those
  below 256). A \<^verbatim>\<open>dict\<close> is an association list in insertion order, with string keys
  as JSON objects and all dictionaries of the program have.
\<close>

datatype pyfloat = NaN | Infinity bool | Finite int int

datatype pyval =
    PNone
  | PBool bool
  | PInt int
  | PFloat pyfloat
  | PStr string
  | PList "pyval list"
  | PDict "(string \<times> pyval) list"

type_synonym pydict = "(string \<times> pyval) list"

text \<open>The exceptions that the code can raise. \<open>ClientError\<close> is any failure of the
  completion client (transport, service, a response without text). \<open>Unmodelled\<close> marks
  the one place where Python would build a dictionary with a key that is not a string.\<close>

datatype exn = AttributeError | TypeError | ClientError string | Unmodelled

text \<open>Truth value testing (\<^verbatim>\<open>if not text\<close>, \<^verbatim>\<open>if not aggregated\<close>).\<close>

fun truthy :: "pyval \<Rightarrow> bool" where
  "truthy PNone = False"
| "truthy (PBool b) = b"
| "truthy (PInt i) = (i \<noteq> 0)"
| "truthy (PFloat NaN) = True"
| "truthy (PFloat (Infinity _)) = True"
| "truthy (PFloat (Finite m e)) = (m \<noteq> 0)"
| "truthy (PStr s) = (s \<noteq> [])"
| "truthy (PList xs) = (xs \<noteq> [])"
| "truthy (PDict kvs) = (kvs \<noteq> [])"

text \<open>\<^verbatim>\<open>d.get(key, default)\<close>: only a dictionary has the method.\<close>

fun dict_get :: "pyval \<Rightarrow> string \<Rightarrow> pyval \<Rightarrow> exn + pyval" where
  "dict_get (PDict kvs) k d = Inr (case map_of kvs k of None \<Rightarrow> d | Some v \<Rightarrow> v)"
| "dict_get _ k d = Inl AttributeError"

text \<open>\<^verbatim>\<open>d[key] = value\<close>: an existing key keeps its place, a new key goes last.\<close>

fun dict_set :: "('k \<times> 'v) list \<Rightarrow> 'k \<Rightarrow> 'v \<Rightarrow> ('k \<times> 'v) list" where
  "dict_set [] k v = [(k, v)]"
| "dict_set ((k', v') # kvs) k v =
     (if k' = k then (k, v) # kvs else (k', v') # dict_set kvs k v)"

text \<open>\<^verbatim>\<open>for x in v\<close>: a list yields its items, a dictionary its keys, a string its
  characters; nothing else of these values is iterable.\<close>

fun py_iter :: "pyval \<Rightarrow> exn + pyval list" where
  "py_iter (PList xs) = Inr xs"
| "py_iter (PDict kvs) = Inr (map (\<lambda>kv. PStr (fst kv)) kvs)"
| "py_iter (PStr s) = Inr (map (\<lambda>c. PStr [c]) s)"
| "py_iter _ = Inl TypeError"

text \<open>\<^verbatim>\<open>xs[:stop]\<close>: the stop is \<^verbatim>\<open>None\<close> or an integer (\<^verbatim>\<open>bool\<close> is one);
  a negative stop counts from the end.\<close>

fun slice_stop :: "pyval \<Rightarrow> exn + int option" where
  "slice_stop PNone = Inr None"
| "slice_stop (PInt i) = Inr (Some i)"
| "slice_stop (PBool b) = Inr (Some (if b then 1 else 0))"
| "slice_stop _ = Inl TypeError"

fun slice_to :: "'a list \<Rightarrow> int option \<Rightarrow> 'a list" where
  "slice_to xs None = xs"
| "slice_to xs (Some i) =
     (if 0 \<le> i then take (nat i) xs else take (nat (int (length xs) + i)) xs)"

section \<open>Strings\<close>

text \<open>\<^verbatim>\<open>str.isspace\<close> on the code points below 256, \<^verbatim>\<open>str.strip()\<close> and
  \<^verbatim>\<open>str.split(sep)\<close> for a separator of one character.\<close>

definition isspace :: "char \<Rightarrow> bool" where
  "isspace c = ((of_char c :: nat) \<in> {9, 10, 11, 12, 13, 28, 29, 30, 31, 32, 133, 160})"

definition lstrip :: "string \<Rightarrow> string" where
  "lstrip s = dropWhile isspace s"

definition rstrip :: "string \<Rightarrow> string" where
  "rstrip s = rev (dropWhile isspace (rev s))"

definition strip :: "string \<Rightarrow> string" where
  "strip s = rstrip (lstrip s)"

fun split :: "char \<Rightarrow> string \<Rightarrow> string list" where
  "split sep [] = [[]]"
| "split sep (c # cs) =
     (if c = sep then [] # split sep cs
      else (case split sep cs of [] \<Rightarrow> [[c]] | p # ps \<Rightarrow> (c # p) # ps))"

section \<open>The world outside the program\<close>

text \<open>
  The completion client, the JSON codec and the conversion of a value to text are not code
  of this repository: they are parameters of the model.
  \<^item> \<open>chat_complete\<close> is \<^verbatim>\<open>client.chat.complete\<close> followed by
    \<^verbatim>\<open>.choices[0].message.content\<close>: given the prompts sent so far and the new
    prompt, the time at which the answer arrives and the text, or a failure. The history
    makes it as general as a service with a state of its own.
  \<^item> \<open>json_loads\<close> is \<^verbatim>\<open>json.loads\<close>; \<open>None\<close> is \<^verbatim>\<open>JSONDecodeError\<close>.
  \<^item> \<open>json_dumps\<close> is \<^verbatim>\<open>json.dumps(v, ensure_ascii=False, indent=2)\<close>.
  \<^item> \<open>py_repr\<close> is \<^verbatim>\<open>str(v)\<close> for a value that is not a string.
\<close>

record extern =
  chat_complete :: "string list \<Rightarrow> string \<Rightarrow> nat \<times> (exn + string)"
  json_loads :: "string \<Rightarrow> pyval option"
  json_dumps :: "pyval \<Rightarrow> string"
  py_repr :: "pyval \<Rightarrow> string"

text \<open>What the program does to the world: the prompts it has sent to the completion
  oracle, in order, and the lines it has printed.\<close>

record world =
  prompts :: "string list"
  stdout :: "string list"

definition print :: "string \<Rightarrow> world \<Rightarrow> world" where
  "print line w = w\<lparr>stdout := stdout w @ [line]\<rparr>"

text \<open>A replacement field of an f-string, \<^verbatim>\<open>f"{v}"\<close>.\<close>

definition fmt :: "extern \<Rightarrow> pyval \<Rightarrow> string" where
  "fmt lib v = (case v of PStr s \<Rightarrow> s | _ \<Rightarrow> py_repr lib v)"

text \<open>
  One call of the oracle, as every agent makes it:
  \<^verbatim>\<open>response = await asyncio.to_thread(client.chat.complete, ...)\<close> and then
  \<^verbatim>\<open>response.choices[0].message.content.strip()\<close>. The call is recorded in the
  world. A coroutine that awaits the oracle finishes after those that never suspend:
  its completion time is positive.
\<close>

definition ask :: "extern \<Rightarrow> string \<Rightarrow> world \<Rightarrow> (nat \<times> (exn + string)) \<times> world" where
  "ask lib prompt w =
     (case chat_complete lib (prompts w) prompt of
        (t, Inl e) \<Rightarrow> ((Suc t, Inl e), w\<lparr>prompts := prompts w @ [prompt]\<rparr>)
      | (t, Inr content) \<Rightarrow> ((Suc t, Inr (strip content)), w\<lparr>prompts := prompts w @ [prompt]\<rparr>))"

definition calls :: "world \<Rightarrow> nat" where
  "calls w = length (prompts w)"

section \<open>The specialized agents\<close>

text \<open>An agent is an instance of one of the five classes, with the name given to its
  constructor.\<close>

datatype agent_class =
    InternetSearchAgent
  | SummarizerAgent
  | EntityExtractorAgent
  | TranslatorAgent
  | FinalFormatterAgent

record agent =
  name :: string
  cls :: agent_class

text \<open>
  A coroutine \<^verbatim>\<open>agent.run(params)\<close>, once run, has an outcome: the time at which it
  completes and the dictionary it returns or the exception it raises. A coroutine that
  never awaits the oracle completes at time 0, in its first step.
\<close>

type_synonym outcome = "nat \<times> (exn + pydict)"

definition nl :: string where
  "nl = [CHR 0x0A]"

subsection \<open>\<^verbatim>\<open>InternetSearchAgent\<close>\<close>

definition process_results :: "string \<Rightarrow> pydict list \<Rightarrow> pydict" where
  "process_results self_name items =
     [(''agent'', PStr self_name), (''action'', PStr ''search_internet''),
      (''results'', PList (map (\<lambda>item.
          PDict [(''title'', case map_of item ''title'' of None \<Rightarrow> PNone | Some v \<Rightarrow> v),
                 (''url'', case map_of item ''link'' of None \<Rightarrow> PNone | Some v \<Rightarrow> v),
                 (''snippet'', case map_of item ''snippet'' of None \<Rightarrow> PNone | Some v \<Rightarrow> v)])
        items))]"

definition fake_items :: "extern \<Rightarrow> pyval \<Rightarrow> pydict list" where
  "fake_items lib keywords =
     [[(''title'', PStr (''Sample Article about '' @ fmt lib keywords)),
       (''link'', PStr ''https://example.com/article1''),
       (''snippet'', PStr ''This is a simulated snippet for article 1.'')],
      [(''title'', PStr (''Another Resource on '' @ fmt lib keywords)),
       (''link'', PStr ''https://example.com/article2''),
       (''snippet'', PStr ''This is a simulated snippet for article 2.'')]]"

definition search_run :: "extern \<Rightarrow> string \<Rightarrow> pyval \<Rightarrow> world \<Rightarrow> outcome \<times> world" where
  "search_run lib self_name params w =
     (case dict_get params ''keywords'' PNone of
        Inl e \<Rightarrow> ((0, Inl e), w)
      | Inr keywords \<Rightarrow>
          (case dict_get params ''max_results'' (PInt 5) of
             Inl e \<Rightarrow> ((0, Inl e), w)
           | Inr max_results \<Rightarrow>
               (case slice_stop max_results of
                  Inl e \<Rightarrow> ((0, Inl e), w)
                | Inr stop \<Rightarrow>
                    ((0, Inr (process_results self_name
                                (slice_to (fake_items lib keywords) stop))), w))))"

subsection \<open>\<^verbatim>\<open>SummarizerAgent\<close>\<close>

definition summarizer_prompt :: "extern \<Rightarrow> pyval \<Rightarrow> string" where
  "summarizer_prompt lib text =
     ''Provide a concise summary for the following text:'' @ nl @ nl @ fmt lib text"

definition summarizer_run :: "extern \<Rightarrow> string \<Rightarrow> pyval \<Rightarrow> world \<Rightarrow> outcome \<times> world" where
  "summarizer_run lib self_name params w =
     (case dict_get params ''text'' (PStr []) of
        Inl e \<Rightarrow> ((0, Inl e), w)
      | Inr text \<Rightarrow>
          if \<not> truthy text
          then ((0, Inr [(''agent'', PStr self_name), (''action'', PStr ''summarize''),
                         (''summary'', PStr [])]), w)
          else
            (case ask lib (summarizer_prompt lib text) w of
               ((t, Inl e), w') \<Rightarrow> ((t, Inl e), w')
             | ((t, Inr summary), w') \<Rightarrow>
                 ((t, Inr [(''agent'', PStr self_name), (''action'', PStr ''summarize''),
                           (''summary'', PStr summary)]), w')))"

subsection \<open>\<^verbatim>\<open>EntityExtractorAgent\<close>\<close>

text \<open>\<^verbatim>\<open>[ent.strip() for ent in raw_entities.split(",") if ent.strip()]\<close>\<close>

definition entities_of :: "string \<Rightarrow> string list" where
  "entities_of raw_entities =
     map strip (filter (\<lambda>ent. strip ent \<noteq> []) (split (CHR 0x2C) raw_entities))"

definition extractor_prompt :: "extern \<Rightarrow> pyval \<Rightarrow> string" where
  "extractor_prompt lib text =
     ''Extract named entities (persons, locations, organizations) from the following text:''
     @ nl @ nl @ fmt lib text @ nl @ nl
     @ ''Return only the entities separated by commas.''"

definition extractor_run :: "extern \<Rightarrow> string \<Rightarrow> pyval \<Rightarrow> world \<Rightarrow> outcome \<times> world" where
  "extractor_run lib self_name params w =
     (case dict_get params ''text'' (PStr []) of
        Inl e \<Rightarrow> ((0, Inl e), w)
      | Inr text \<Rightarrow>
          if \<not> truthy text
          then ((0, Inr [(''agent'', PStr self_name), (''action'', PStr ''entity_extraction''),
                         (''entities'', PList [])]), w)
          else
            (case ask lib (extractor_prompt lib text) w of
               ((t, Inl e), w') \<Rightarrow> ((t, Inl e), w')
             | ((t, Inr raw_entities), w') \<Rightarrow>
                 ((t, Inr [(''agent'', PStr self_name), (''action'', PStr ''entity_extraction''),
                           (''entities'', PList (map PStr (entities_of raw_entities)))]), w')))"

subsection \<open>\<^verbatim>\<open>TranslatorAgent\<close>\<close>

definition translator_prompt :: "extern \<Rightarrow> pyval \<Rightarrow> pyval \<Rightarrow> string" where
  "translator_prompt lib target_language text =
     ''Translate the following text into '' @ fmt lib target_language @ '':'' @ nl @ nl
     @ fmt lib text"

definition translator_run :: "extern \<Rightarrow> string \<Rightarrow> pyval \<Rightarrow> world \<Rightarrow> outcome \<times> world" where
  "translator_run lib self_name params w =
     (case dict_get params ''text'' (PStr []) of
        Inl e \<Rightarrow> ((0, Inl e), w)
      | Inr text \<Rightarrow>
          (case dict_get params ''target_language'' (PStr ''en'') of
             Inl e \<Rightarrow> ((0, Inl e), w)
           | Inr target_language \<Rightarrow>
               if \<not> truthy text
               then ((0, Inr [(''agent'', PStr self_name), (''action'', PStr ''translate''),
                              (''translated_text'', PStr [])]), w)
               else
                 (case ask lib (translator_prompt lib target_language text) w of
                    ((t, Inl e), w') \<Rightarrow> ((t, Inl e), w')
                  | ((t, Inr translated_text), w') \<Rightarrow>
                      ((t, Inr [(''agent'', PStr self_name), (''action'', PStr ''translate''),
                                (''translated_text'', PStr translated_text)]), w'))))"

subsection \<open>\<^verbatim>\<open>FinalFormatterAgent\<close>\<close>

definition formatter_prompt :: "extern \<Rightarrow> pyval \<Rightarrow> string" where
  "formatter_prompt lib aggregated =
     ''Transform the following aggregated JSON result into a clear, well-structured summary in natural language:''
     @ nl @ nl @ json_dumps lib aggregated @ nl @ nl
     @ ''Provide only the final text summary without additional commentary.''"

definition formatter_run :: "extern \<Rightarrow> string \<Rightarrow> pyval \<Rightarrow> world \<Rightarrow> outcome \<times> world" where
  "formatter_run lib self_name params w =
     (case dict_get params ''aggregated'' PNone of
        Inl e \<Rightarrow> ((0, Inl e), w)
      | Inr aggregated \<Rightarrow>
          if \<not> truthy aggregated
          then ((0, Inr [(''agent'', PStr self_name), (''action'', PStr ''final_format''),
                         (''formatted_text'', PStr ''No result to format.'')]), w)
          else
            (case ask lib (formatter_prompt lib aggregated) w of
               ((t, Inl e), w') \<Rightarrow> ((t, Inl e), w')
             | ((t, Inr formatted_text), w') \<Rightarrow>
                 ((t, Inr [(''agent'', PStr self_name), (''action'', PStr ''final_format''),
                           (''formatted_text'', PStr formatted_text)]), w')))"

text \<open>\<^verbatim>\<open>agent.run(params)\<close>, dispatched on the class of the agent.\<close>

definition run :: "extern \<Rightarrow> agent \<Rightarrow> pyval \<Rightarrow> world \<Rightarrow> outcome \<times> world" where
  "run lib a params w =
     (case cls a of
        InternetSearchAgent \<Rightarrow> search_run lib (name a) params w
      | SummarizerAgent \<Rightarrow> summarizer_run lib (name a) params w
      | EntityExtractorAgent \<Rightarrow> extractor_run lib (name a) params w
      | TranslatorAgent \<Rightarrow> translator_run lib (name a) params w
      | FinalFormatterAgent \<Rightarrow> formatter_run lib (name a) params w)"

section \<open>The dispatcher\<close>

text \<open>
  \<^verbatim>\<open>AutonomousDispatcherAgent.__init__\<close>: the agents indexed by name (a later agent
  replaces an earlier one of the same name), and the four actions, each mapped to the agent
  of a fixed name or to \<^verbatim>\<open>None\<close>.
\<close>

record dispatcher =
  agents :: "(string \<times> agent) list"
  action_to_agent :: "(string \<times> agent option) list"

definition index_by_name :: "agent list \<Rightarrow> (string \<times> agent) list" where
  "index_by_name ags = foldl (\<lambda>d a. dict_set d (name a) a) [] ags"

definition init :: "agent list \<Rightarrow> dispatcher" where
  "init ags =
     (let by_name = index_by_name ags in
      \<lparr>agents = by_name,
       action_to_agent =
         [(''summarize'', map_of by_name ''summarizer''),
          (''entity_extraction'', map_of by_name ''entity_extraction''),
          (''translate'', map_of by_name ''translator''),
          (''search_internet'', map_of by_name ''search_internet'')]\<rparr>)"

text \<open>\<^verbatim>\<open>self.action_to_agent.get(action)\<close>: a list or a dictionary is not hashable;
  any other value that is not one of the four keys finds nothing.\<close>

fun lookup_agent :: "dispatcher \<Rightarrow> pyval \<Rightarrow> exn + agent option" where
  "lookup_agent d (PStr a) =
     Inr (case map_of (action_to_agent d) a of None \<Rightarrow> None | Some found \<Rightarrow> found)"
| "lookup_agent d (PList _) = Inl TypeError"
| "lookup_agent d (PDict _) = Inl TypeError"
| "lookup_agent d _ = Inr None"

subsection \<open>\<^verbatim>\<open>parse_natural_language_request\<close>\<close>

definition dq :: string where
  "dq = [CHR 0x22]"

definition parse_prompt :: "string \<Rightarrow> string" where
  "parse_prompt user_request =
     ''Analyze the following request and propose an action plan as a JSON structure ''
     @ ''using the following strict format:'' @ nl @ nl
     @ ''{'' @ nl @ ''  '' @ dq @ ''tasks'' @ dq @ '': ['' @ nl
     @ ''    { '' @ dq @ ''action'' @ dq @ '': '' @ dq @ ''<action_name>'' @ dq @ '', ''
     @ dq @ ''params'' @ dq @ '': { <parameters> } },'' @ nl
     @ ''    ...'' @ nl @ ''  ]'' @ nl @ ''}'' @ nl @ nl
     @ ''Actions: ['' @ [CHR 0x27] @ ''summarize'' @ [CHR 0x27] @ '', ''
     @ [CHR 0x27] @ ''entity_extraction'' @ [CHR 0x27] @ '', ''
     @ [CHR 0x27] @ ''translate'' @ [CHR 0x27] @ '', ''
     @ [CHR 0x27] @ ''search_internet'' @ [CHR 0x27] @ '']'' @ nl @ nl
     @ ''Only return the JSON without any additional explanatory text.'' @ nl @ nl
     @ ''Request to analyze:'' @ nl
     @ dq @ user_request @ dq @ nl"

definition empty_plan :: pyval where
  "empty_plan = PDict [(''tasks'', PList [])]"

definition parse_natural_language_request ::
    "extern \<Rightarrow> string \<Rightarrow> world \<Rightarrow> (exn + pyval) \<times> world" where
  "parse_natural_language_request lib user_request w =
     (case ask lib (parse_prompt user_request) w of
        ((t, Inl e), w') \<Rightarrow> (Inl e, w')
      | ((t, Inr json_text), w') \<Rightarrow>
          (case json_loads lib json_text of
             Some plan \<Rightarrow> (Inr plan, w')
           | None \<Rightarrow>
               (Inr empty_plan,
                print ''[Dispatcher] JSON decoding error. Falling back to an empty plan.'' w')))"

subsection \<open>\<^verbatim>\<open>dispatch\<close>\<close>

definition diagnostic :: "extern \<Rightarrow> pyval \<Rightarrow> string" where
  "diagnostic lib action =
     ''[Dispatcher] No matching agent found for action '' @ [CHR 0x27] @ fmt lib action
     @ [CHR 0x27] @ ''.''"

text \<open>The loop over the tasks of the plan. It collects the coroutines
  \<^verbatim>\<open>agent.run(params)\<close>, not yet started, in \<open>tasks\<close>.\<close>

fun collect ::
    "dispatcher \<Rightarrow> extern \<Rightarrow> pyval list \<Rightarrow> (agent \<times> pyval) list \<Rightarrow> world
       \<Rightarrow> (exn + (agent \<times> pyval) list) \<times> world" where
  "collect d lib [] tasks w = (Inr tasks, w)"
| "collect d lib (task # rest) tasks w =
     (case dict_get task ''action'' PNone of
        Inl e \<Rightarrow> (Inl e, w)
      | Inr action \<Rightarrow>
          (case dict_get task ''params'' (PDict []) of
             Inl e \<Rightarrow> (Inl e, w)
           | Inr params \<Rightarrow>
               (case lookup_agent d action of
                  Inl e \<Rightarrow> (Inl e, w)
                | Inr (Some a) \<Rightarrow> collect d lib rest (tasks @ [(a, params)]) w
                | Inr None \<Rightarrow>
                    collect d lib rest tasks (print (diagnostic lib action) w))))"

text \<open>The coroutines run. Each one that asks the oracle sends its prompt when it
  starts, in the order of the list.\<close>

fun run_all :: "extern \<Rightarrow> (agent \<times> pyval) list \<Rightarrow> world \<Rightarrow> outcome list \<times> world" where
  "run_all lib [] w = ([], w)"
| "run_all lib ((a, params) # rest) w =
     (case run lib a params w of
        (r, w1) \<Rightarrow> (case run_all lib rest w1 of (rs, w2) \<Rightarrow> (r # rs, w2)))"

text \<open>
  \<^verbatim>\<open>await asyncio.gather(*tasks)\<close>: the exception raised first, if there is one
  (of two raised at the same time, that of the coroutine started first); otherwise the
  results, in the order of the coroutines.
\<close>

fun first_failure :: "(nat \<times> (exn + 'a)) list \<Rightarrow> (nat \<times> exn) option" where
  "first_failure [] = None"
| "first_failure ((t, Inr r) # rest) = first_failure rest"
| "first_failure ((t, Inl e) # rest) =
     (case first_failure rest of
        None \<Rightarrow> Some (t, e)
      | Some (t', e') \<Rightarrow> if t' < t then Some (t', e') else Some (t, e))"

fun returned :: "(nat \<times> (exn + 'a)) list \<Rightarrow> 'a list" where
  "returned [] = []"
| "returned ((t, Inr r) # rest) = r # returned rest"
| "returned ((t, Inl e) # rest) = returned rest"

definition gather :: "(nat \<times> (exn + 'a)) list \<Rightarrow> exn + 'a list" where
  "gather outcomes =
     (case first_failure outcomes of
        Some (t, e) \<Rightarrow> Inl e
      | None \<Rightarrow> Inr (returned outcomes))"

text \<open>\<^verbatim>\<open>{result["action"]: result for result in results_list if "action" in result}\<close>\<close>

fun aggregate :: "pydict list \<Rightarrow> pydict \<Rightarrow> exn + pydict" where
  "aggregate [] aggregated = Inr aggregated"
| "aggregate (result # rest) aggregated =
     (case map_of result ''action'' of
        None \<Rightarrow> aggregate rest aggregated
      | Some (PStr a) \<Rightarrow> aggregate rest (dict_set aggregated a (PDict result))
      | Some (PList _) \<Rightarrow> Inl TypeError
      | Some (PDict _) \<Rightarrow> Inl TypeError
      | Some _ \<Rightarrow> Inl Unmodelled)"

text \<open>The first half of \<^verbatim>\<open>dispatch\<close>: the plan is parsed and the loop builds the
  list of coroutines.\<close>

definition prepare ::
    "dispatcher \<Rightarrow> extern \<Rightarrow> string \<Rightarrow> world \<Rightarrow> (exn + (agent \<times> pyval) list) \<times> world" where
  "prepare d lib user_request w =
     (case parse_natural_language_request lib user_request w of
        (Inl e, w1) \<Rightarrow> (Inl e, w1)
      | (Inr plan, w1) \<Rightarrow>
          (case dict_get plan ''tasks'' (PList []) of
             Inl e \<Rightarrow> (Inl e, w1)
           | Inr planned \<Rightarrow>
               (case py_iter planned of
                  Inl e \<Rightarrow> (Inl e, w1)
                | Inr todo \<Rightarrow> collect d lib todo [] w1)))"

text \<open>The second half: the coroutines run, \<^verbatim>\<open>gather\<close> joins them, and the results
  are aggregated by action.\<close>

definition dispatch ::
    "dispatcher \<Rightarrow> extern \<Rightarrow> string \<Rightarrow> world \<Rightarrow> (exn + pydict) \<times> world" where
  "dispatch d lib user_request w =
     (case prepare d lib user_request w of
        (Inl e, w2) \<Rightarrow> (Inl e, w2)
      | (Inr tasks, w2) \<Rightarrow>
          (case run_all lib tasks w2 of
             (outcomes, w3) \<Rightarrow>
               (case gather outcomes of
                  Inl e \<Rightarrow> (Inl e, w3)
                | Inr results_list \<Rightarrow> (aggregate results_list [], w3))))"

text \<open>The dispatcher that \<^verbatim>\<open>main\<close> builds.\<close>

definition main_agents :: "agent list" where
  "main_agents =
     [\<lparr>name = ''summarizer'', cls = SummarizerAgent\<rparr>,
      \<lparr>name = ''entity_extraction'', cls = EntityExtractorAgent\<rparr>,
      \<lparr>name = ''translator'', cls = TranslatorAgent\<rparr>,
      \<lparr>name = ''search_internet'', cls = InternetSearchAgent\<rparr>]"

section \<open>Notions used by the properties\<close>

text \<open>The value of \<^verbatim>\<open>"action"\<close> in the dictionary that \<^verbatim>\<open>run\<close> of each class returns.\<close>

fun action_of :: "agent_class \<Rightarrow> string" where
  "action_of InternetSearchAgent = ''search_internet''"
| "action_of SummarizerAgent = ''summarize''"
| "action_of EntityExtractorAgent = ''entity_extraction''"
| "action_of TranslatorAgent = ''translate''"
| "action_of FinalFormatterAgent = ''final_format''"

text \<open>A registry is sound when the agent registered for an action answers with that
  action, as the agents that \<^verbatim>\<open>main\<close> registers do.\<close>

definition registry_sound :: "dispatcher \<Rightarrow> bool" where
  "registry_sound d =
     list_all (\<lambda>entry. case snd entry of None \<Rightarrow> True | Some a \<Rightarrow> action_of (cls a) = fst entry)
       (action_to_agent d)"

definition actions :: "string list" where
  "actions = [''summarize'', ''entity_extraction'', ''translate'', ''search_internet'']"

text \<open>The coroutine that the loop of \<^verbatim>\<open>dispatch\<close> makes of a task: the agent registered for
  the action of the task, with the parameters of the task; none when the action has no agent.\<close>

definition coroutine_of :: "dispatcher \<Rightarrow> pyval \<Rightarrow> (agent \<times> pyval) option" where
  "coroutine_of d task =
     (case dict_get task ''action'' PNone of
        Inl e \<Rightarrow> None
      | Inr action \<Rightarrow>
          (case dict_get task ''params'' (PDict []) of
             Inl e \<Rightarrow> None
           | Inr params \<Rightarrow>
               (case lookup_agent d action of
                  Inr (Some a) \<Rightarrow> Some (a, params)
                | _ \<Rightarrow> None)))"

text \<open>The result that the aggregate keeps for an action: the last one with that action in
  the list of results, which is in the order of the coroutines.\<close>

definition last_result :: "string \<Rightarrow> pydict list \<Rightarrow> pyval option" where
  "last_result a results =
     (case filter (\<lambda>result. map_of result ''action'' = Some (PStr a)) results of
        [] \<Rightarrow> None
      | r # rs \<Rightarrow> Some (PDict (last (r # rs))))"


text \<open>The shape of a plan, as the specification words it: an object whose \<open>tasks\<close> is a
  sequence of tasks, each an object with a string \<open>action\<close> and a mapping \<open>params\<close>.\<close>

fun spec_task_shape :: "pyval \<Rightarrow> bool" where
  "spec_task_shape (PDict kvs) =
     ((case map_of kvs ''action'' of Some (PStr a) \<Rightarrow> True | _ \<Rightarrow> False)
      \<and> (case map_of kvs ''params'' of Some (PDict ps) \<Rightarrow> True | _ \<Rightarrow> False))"
| "spec_task_shape _ = False"

fun spec_plan_shape :: "pyval \<Rightarrow> bool" where
  "spec_plan_shape (PDict kvs) =
     (case map_of kvs ''tasks'' of Some (PList ts) \<Rightarrow> list_all spec_task_shape ts | _ \<Rightarrow> False)"
| "spec_plan_shape _ = False"

text \<open>The entities, as the specification words them: the response split on commas, each
  fragment trimmed, the empty fragments discarded.\<close>

definition spec_entities :: "string \<Rightarrow> string list" where
  "spec_entities response =
     filter (\<lambda>fragment. fragment \<noteq> []) (map strip (split (CHR 0x2C) response))"

text \<open>The items of the \<^verbatim>\<open>"results"\<close> list of a search result.\<close>

definition results_of :: "pydict \<Rightarrow> pyval list" where
  "results_of result = (case map_of result ''results'' of Some (PList items) \<Rightarrow> items | _ \<Rightarrow> [])"

text \<open>A deterministic oracle answers a prompt with the same text, or the same failure,
  whatever was asked before.\<close>

definition deterministic :: "extern \<Rightarrow> bool" where
  "deterministic lib = (\<forall>h h' p. snd (chat_complete lib h p) = snd (chat_complete lib h' p))"

subsection \<open>Concrete worlds\<close>

text \<open>An oracle that gives scripted answers, one for each call in turn, with a decoder given
  by a table; an oracle that answers every prompt with a text made from it; and the world
  before anything has happened.\<close>

definition scripted ::
    "(nat \<times> (exn + string)) list \<Rightarrow> string list \<Rightarrow> string \<Rightarrow> nat \<times> (exn + string)" where
  "scripted answers history prompt =
     (if length history < length answers then answers ! length history
      else (0, Inl (ClientError ''no answer left'')))"

definition stub :: "(nat \<times> (exn + string)) list \<Rightarrow> (string \<times> pyval) list \<Rightarrow> extern" where
  "stub answers decoded =
     \<lparr>chat_complete = scripted answers, json_loads = map_of decoded,
      json_dumps = (\<lambda>v. ''{}''), py_repr = (\<lambda>v. ''?'')\<rparr>"

definition echo :: extern where
  "echo =
     \<lparr>chat_complete = (\<lambda>history prompt. (length history, Inr (''  Summary of: '' @ prompt))),
      json_loads = (\<lambda>s. None), json_dumps = (\<lambda>v. ''{}''), py_repr = (\<lambda>v. ''?'')\<rparr>"

definition w0 :: world where
  "w0 = \<lparr>prompts = [], stdout = []\<rparr>"

text \<open>A plan with the given tasks, and a task with an action and a text to work on.\<close>

definition plan_of :: "pyval list \<Rightarrow> pyval" where
  "plan_of tasks = PDict [(''tasks'', PList tasks)]"

definition task_of :: "string \<Rightarrow> string \<Rightarrow> pyval" where
  "task_of action text =
     PDict [(''action'', PStr action), (''params'', PDict [(''text'', PStr text)])]"

section \<open>The agents on degenerate input\<close>

text \<open>
  Claim C5. When the parameter \<open>text\<close> is absent or the empty string, the summarizer
  returns a result with an empty summary, the entity extractor one with an empty list of
  entities, the translator one with an empty translation. None raises, and the world that
  each returns is the one it was given: no prompt was sent to the oracle.
\<close>

theorem degenerate_text_no_oracle:
  assumes "map_of params ''text'' = None \<or> map_of params ''text'' = Some (PStr [])"
  shows "run lib \<lparr>name = n, cls = SummarizerAgent\<rparr> (PDict params) w =
           ((0, Inr [(''agent'', PStr n), (''action'', PStr ''summarize''), (''summary'', PStr [])]), w)
       \<and> run lib \<lparr>name = n, cls = EntityExtractorAgent\<rparr> (PDict params) w =
           ((0, Inr [(''agent'', PStr n), (''action'', PStr ''entity_extraction''), (''entities'', PList [])]), w)
       \<and> run lib \<lparr>name = n, cls = TranslatorAgent\<rparr> (PDict params) w =
           ((0, Inr [(''agent'', PStr n), (''action'', PStr ''translate''), (''translated_text'', PStr [])]), w)"
  using assms
  by (auto simp: run_def summarizer_run_def extractor_run_def translator_run_def split: option.splits)

theorem degenerate_text_no_oracle_witness:
  "(map_of [(''target_language'', PStr ''fr'')] ''text'' = None
      \<or> map_of [(''target_language'', PStr ''fr'')] ''text'' = Some (PStr []))
   \<and> run echo \<lparr>name = ''summarizer'', cls = SummarizerAgent\<rparr> (PDict [(''target_language'', PStr ''fr'')]) w0 =
           ((0, Inr [(''agent'', PStr ''summarizer''), (''action'', PStr ''summarize''), (''summary'', PStr [])]), w0)
   \<and> run echo \<lparr>name = ''entity_extraction'', cls = EntityExtractorAgent\<rparr> (PDict [(''target_language'', PStr ''fr'')]) w0 =
           ((0, Inr [(''agent'', PStr ''entity_extraction''), (''action'', PStr ''entity_extraction''), (''entities'', PList [])]), w0)
   \<and> run echo \<lparr>name = ''translator'', cls = TranslatorAgent\<rparr> (PDict [(''target_language'', PStr ''fr'')]) w0 =
           ((0, Inr [(''agent'', PStr ''translator''), (''action'', PStr ''translate''), (''translated_text'', PStr [])]), w0)"
  using degenerate_text_no_oracle [of "[(''target_language'', PStr ''fr'')]" echo "''summarizer''" w0]
        degenerate_text_no_oracle [of "[(''target_language'', PStr ''fr'')]" echo "''entity_extraction''" w0]
        degenerate_text_no_oracle [of "[(''target_language'', PStr ''fr'')]" echo "''translator''" w0]
  by simp

text \<open>
  Claim C6. When the parameters of the final formatter hold no \<open>aggregated\<close> entry, or
  an empty mapping, \<open>run\<close> returns the fixed text \<^verbatim>\<open>No result to format.\<close> and leaves
  the world as it was: no prompt was sent to the oracle.
\<close>

theorem formatter_placeholder_no_oracle:
  assumes "map_of params ''aggregated'' = None \<or> map_of params ''aggregated'' = Some (PDict [])"
  shows "run lib \<lparr>name = n, cls = FinalFormatterAgent\<rparr> (PDict params) w =
           ((0, Inr [(''agent'', PStr n), (''action'', PStr ''final_format''),
                     (''formatted_text'', PStr ''No result to format.'')]), w)"
  using assms by (auto simp: run_def formatter_run_def split: option.splits)

theorem formatter_placeholder_no_oracle_witness:
  "(map_of [(''aggregated'', PDict [])] ''aggregated'' = None
      \<or> map_of [(''aggregated'', PDict [])] ''aggregated'' = Some (PDict []))
   \<and> run echo \<lparr>name = ''final_formatter'', cls = FinalFormatterAgent\<rparr> (PDict [(''aggregated'', PDict [])]) w0 =
           ((0, Inr [(''agent'', PStr ''final_formatter''), (''action'', PStr ''final_format''),
                     (''formatted_text'', PStr ''No result to format.'')]), w0)"
  using formatter_placeholder_no_oracle [of "[(''aggregated'', PDict [])]" echo "''final_formatter''" w0]
  by simp

section \<open>The final formatter with a deterministic oracle\<close>

lemma ask_deterministic:
  assumes "deterministic lib"
  shows "snd (fst (ask lib p w)) = snd (fst (ask lib p w'))"
proof -
  obtain t r where a: "chat_complete lib (prompts w) p = (t, r)" by (cases "chat_complete lib (prompts w) p")
  obtain t' r' where b: "chat_complete lib (prompts w') p = (t', r')" by (cases "chat_complete lib (prompts w') p")
  from assms have "snd (chat_complete lib (prompts w) p) = snd (chat_complete lib (prompts w') p)"
    unfolding deterministic_def by blast
  with a b have "r = r'" by simp
  with a b show ?thesis by (auto simp: ask_def split: sum.splits)
qed

text \<open>
  Claim C9. With a deterministic oracle, two successive runs of the final formatter on
  the same parameters, the second in the world that the first has left, return the same
  thing: the same result, with the same formatted text, or the same failure. This holds
  for every aggregate, the non-empty ones included.
\<close>

theorem formatter_idempotent:
  assumes "deterministic lib"
    and "run lib \<lparr>name = n, cls = FinalFormatterAgent\<rparr> params w = (first, w1)"
    and "run lib \<lparr>name = n, cls = FinalFormatterAgent\<rparr> params w1 = (second, w2)"
  shows "snd first = snd second"
proof -
  have "snd (fst (formatter_run lib n params w)) = snd (fst (formatter_run lib n params w1))"
  proof (cases "dict_get params ''aggregated'' PNone")
    case (Inl e)
    then show ?thesis by (simp add: formatter_run_def)
  next
    case (Inr aggregated)
    show ?thesis
    proof (cases "truthy aggregated")
      case False
      with Inr show ?thesis by (simp add: formatter_run_def)
    next
      case True
      let ?p = "formatter_prompt lib aggregated"
      have eq: "snd (fst (ask lib ?p w)) = snd (fst (ask lib ?p w1))"
        using assms(1) by (rule ask_deterministic)
      obtain t r wa where a: "ask lib ?p w = ((t, r), wa)" by (metis surj_pair)
      obtain t' r' wb where b: "ask lib ?p w1 = ((t', r'), wb)" by (metis surj_pair)
      from eq a b have "r = r'" by simp
      with Inr True a b show ?thesis by (auto simp: formatter_run_def split: sum.splits)
    qed
  qed
  with assms(2,3) show ?thesis by (simp add: run_def)
qed


theorem formatter_idempotent_witness:
  "deterministic echo
   \<and> snd (fst (run echo \<lparr>name = ''final_formatter'', cls = FinalFormatterAgent\<rparr>
                 (PDict [(''aggregated'', PDict [(''translate'', PDict [(''agent'', PStr ''translator'')])])]) w0))
     = snd (fst (run echo \<lparr>name = ''final_formatter'', cls = FinalFormatterAgent\<rparr>
                 (PDict [(''aggregated'', PDict [(''translate'', PDict [(''agent'', PStr ''translator'')])])])
                 (snd (run echo \<lparr>name = ''final_formatter'', cls = FinalFormatterAgent\<rparr>
                 (PDict [(''aggregated'', PDict [(''translate'', PDict [(''agent'', PStr ''translator'')])])]) w0))))
   \<and> calls (snd (run echo \<lparr>name = ''final_formatter'', cls = FinalFormatterAgent\<rparr>
                 (PDict [(''aggregated'', PDict [(''translate'', PDict [(''agent'', PStr ''translator'')])])]) w0)) = 1"
proof -
  let ?ff = "\<lparr>name = ''final_formatter'', cls = FinalFormatterAgent\<rparr>"
  let ?p = "PDict [(''aggregated'', PDict [(''translate'', PDict [(''agent'', PStr ''translator'')])])]"
  have d: "deterministic echo" by (simp add: deterministic_def echo_def)
  have c: "calls (snd (run echo ?ff ?p w0)) = 1"
    by (simp add: run_def formatter_run_def ask_def echo_def w0_def calls_def)
  have "snd (fst (run echo ?ff ?p w0)) = snd (fst (run echo ?ff ?p (snd (run echo ?ff ?p w0))))"
    using formatter_idempotent [OF d, of "''final_formatter''" ?p w0 "fst (run echo ?ff ?p w0)"
        "snd (run echo ?ff ?p w0)" "fst (run echo ?ff ?p (snd (run echo ?ff ?p w0)))"
        "snd (run echo ?ff ?p (snd (run echo ?ff ?p w0)))"]
    by simp
  with d c show ?thesis by simp
qed

section \<open>The simulated search\<close>

text \<open>
  Claim C8, as stated: the list of results is never longer than \<open>max_results\<close>. It fails
  for a negative \<open>max_results\<close>: the slice \<^verbatim>\<open>[:-1]\<close> of the two simulated items keeps
  one item, and 1 is more than -1.
\<close>

theorem search_length_counterexample:
  "snd (fst (run echo \<lparr>name = ''search_internet'', cls = InternetSearchAgent\<rparr>
              (PDict [(''keywords'', PStr ''openai''), (''max_results'', PInt (- 1))]) w0))
     = Inr [(''agent'', PStr ''search_internet''), (''action'', PStr ''search_internet''),
            (''results'', PList [PDict [(''title'', PStr ''Sample Article about openai''),
                                        (''url'', PStr ''https://example.com/article1''),
                                        (''snippet'', PStr ''This is a simulated snippet for article 1.'')]])]
   \<and> \<not> int (length (results_of
            [(''agent'', PStr ''search_internet''), (''action'', PStr ''search_internet''),
             (''results'', PList [PDict [(''title'', PStr ''Sample Article about openai''),
                                        (''url'', PStr ''https://example.com/article1''),
                                        (''snippet'', PStr ''This is a simulated snippet for article 1.'')]])])) \<le> - 1"
  by (simp add: run_def search_run_def process_results_def fake_items_def fmt_def results_of_def)

lemma length_slice_to: "length (slice_to xs stop) \<le> length xs"
  by (cases stop) auto

lemma length_slice_to_nonneg: "0 \<le> m \<Longrightarrow> int (length (slice_to xs (Some m))) \<le> m"
  by auto

text \<open>
  Claim C8, amended. The search never asks the oracle: whatever the parameters, the world
  is unchanged. An absent \<open>max_results\<close> is 5. Whenever the search returns, its list has
  at most the two simulated items, and at most \<open>max_results\<close> items when that is an
  integer that is not negative.
\<close>

theorem search_no_oracle_bounded:
  "snd (run lib \<lparr>name = n, cls = InternetSearchAgent\<rparr> params w) = w
   \<and> (map_of kvs ''max_results'' = None \<longrightarrow>
        run lib \<lparr>name = n, cls = InternetSearchAgent\<rparr> (PDict kvs) w
        = run lib \<lparr>name = n, cls = InternetSearchAgent\<rparr> (PDict (kvs @ [(''max_results'', PInt 5)])) w)
   \<and> (\<forall>result. snd (fst (run lib \<lparr>name = n, cls = InternetSearchAgent\<rparr> params w)) = Inr result \<longrightarrow>
         length (results_of result) \<le> 2
         \<and> (\<forall>m. dict_get params ''max_results'' (PInt 5) = Inr (PInt m) \<and> 0 \<le> m \<longrightarrow>
               int (length (results_of result)) \<le> m))"
proof (intro conjI impI allI)
  show "snd (run lib \<lparr>name = n, cls = InternetSearchAgent\<rparr> params w) = w"
    by (simp add: run_def search_run_def split: sum.splits)
next
  assume "map_of kvs ''max_results'' = None"
  then show "run lib \<lparr>name = n, cls = InternetSearchAgent\<rparr> (PDict kvs) w
        = run lib \<lparr>name = n, cls = InternetSearchAgent\<rparr> (PDict (kvs @ [(''max_results'', PInt 5)])) w"
    by (simp add: run_def search_run_def map_add_def split: option.splits)
next
  fix result
  assume r: "snd (fst (run lib \<lparr>name = n, cls = InternetSearchAgent\<rparr> params w)) = Inr result"
  then obtain stop where res: "result = process_results n (slice_to (fake_items lib (case dict_get params ''keywords'' PNone of Inr k \<Rightarrow> k | Inl e \<Rightarrow> PNone)) stop)"
    and stop: "\<exists>v. dict_get params ''max_results'' (PInt 5) = Inr v \<and> slice_stop v = Inr stop"
    by (auto simp: run_def search_run_def split: sum.splits)
  have len: "length (results_of result) = length (slice_to (fake_items lib (case dict_get params ''keywords'' PNone of Inr k \<Rightarrow> k | Inl e \<Rightarrow> PNone)) stop)"
    by (simp add: res process_results_def results_of_def)
  have "length (fake_items lib k) = 2" for k by (simp add: fake_items_def)
  with len length_slice_to show "length (results_of result) \<le> 2" by metis
  fix m
  assume "dict_get params ''max_results'' (PInt 5) = Inr (PInt m) \<and> 0 \<le> m"
  with stop have "stop = Some m" "0 \<le> m" by auto
  with len show "int (length (results_of result)) \<le> m"
    using length_slice_to_nonneg by metis
qed


theorem search_no_oracle_bounded_witness:
  "map_of [(''keywords'', PStr ''openai'')] ''max_results'' = None
   \<and> snd (fst (run echo \<lparr>name = ''search_internet'', cls = InternetSearchAgent\<rparr>
                 (PDict [(''keywords'', PStr ''openai''), (''max_results'', PInt 1)]) w0))
       = Inr (process_results ''search_internet'' [hd (fake_items echo (PStr ''openai''))])
   \<and> dict_get (PDict [(''keywords'', PStr ''openai''), (''max_results'', PInt 1)]) ''max_results'' (PInt 5)
       = Inr (PInt 1) \<and> (0::int) \<le> 1
   \<and> snd (run echo \<lparr>name = ''search_internet'', cls = InternetSearchAgent\<rparr>
            (PDict [(''keywords'', PStr ''openai''), (''max_results'', PInt 1)]) w0) = w0
   \<and> run echo \<lparr>name = ''search_internet'', cls = InternetSearchAgent\<rparr> (PDict [(''keywords'', PStr ''openai'')]) w0
       = run echo \<lparr>name = ''search_internet'', cls = InternetSearchAgent\<rparr>
           (PDict ([(''keywords'', PStr ''openai'')] @ [(''max_results'', PInt 5)])) w0
   \<and> length (results_of (process_results ''search_internet'' [hd (fake_items echo (PStr ''openai''))])) \<le> 2
   \<and> int (length (results_of (process_results ''search_internet'' [hd (fake_items echo (PStr ''openai''))]))) \<le> 1"
proof -
  let ?p = "PDict [(''keywords'', PStr ''openai''), (''max_results'', PInt 1)]"
  let ?r = "process_results ''search_internet'' [hd (fake_items echo (PStr ''openai''))]"
  have a: "map_of [(''keywords'', PStr ''openai'')] ''max_results'' = None" by simp
  have b: "snd (fst (run echo \<lparr>name = ''search_internet'', cls = InternetSearchAgent\<rparr> ?p w0)) = Inr ?r"
    by (simp add: run_def search_run_def fake_items_def)
  have c: "dict_get ?p ''max_results'' (PInt 5) = Inr (PInt 1) \<and> (0::int) \<le> 1" by simp
  from search_no_oracle_bounded [of echo "''search_internet''" ?p w0 "[(''keywords'', PStr ''openai'')]"] a b c
  show ?thesis by blast
qed

section \<open>Parsing the plan\<close>

text \<open>
  Claim C1, as stated: every answer of the oracle that does not have the shape of a plan
  yields the empty plan. It fails for an answer that is valid JSON of another shape: the
  object \<^verbatim>\<open>{"plan": []}\<close> has no \<open>tasks\<close>, and the parser returns it as it is.
\<close>

theorem parse_wrong_shape_counterexample:
  "fst (parse_natural_language_request
          (stub [(0, Inr (''{'' @ dq @ ''plan'' @ dq @ '': []}''))] [(''{'' @ dq @ ''plan'' @ dq @ '': []}'', PDict [(''plan'', PList [])])])
          ''Summarize this.'' w0)
     = Inr (PDict [(''plan'', PList [])])
   \<and> \<not> spec_plan_shape (PDict [(''plan'', PList [])])
   \<and> PDict [(''plan'', PList [])] \<noteq> empty_plan"
  by (simp add: parse_natural_language_request_def ask_def stub_def scripted_def w0_def
      strip_def lstrip_def rstrip_def isspace_def empty_plan_def dq_def)

text \<open>
  Claim C1, amended. When the oracle answers with a text, the parser raises nothing in
  these two cases: if the trimmed text is not valid JSON, it prints its diagnostic and
  returns the empty plan; if the text decodes to an object, it returns the object as it
  is, whatever its shape.
\<close>

theorem parse_falls_back_on_decode_error:
  assumes "chat_complete lib (prompts w) (parse_prompt user_request) = (t, Inr text)"
  shows "(json_loads lib (strip text) = None \<longrightarrow>
            parse_natural_language_request lib user_request w
            = (Inr empty_plan,
               print ''[Dispatcher] JSON decoding error. Falling back to an empty plan.''
                 (w\<lparr>prompts := prompts w @ [parse_prompt user_request]\<rparr>)))
       \<and> (\<forall>object. json_loads lib (strip text) = Some (PDict object) \<longrightarrow>
            parse_natural_language_request lib user_request w
            = (Inr (PDict object), w\<lparr>prompts := prompts w @ [parse_prompt user_request]\<rparr>))"
  using assms by (simp add: parse_natural_language_request_def ask_def)

theorem parse_falls_back_on_decode_error_witness:
  "chat_complete (stub [(0, Inr ''  {tasks: [ , }  '')] []) (prompts w0) (parse_prompt ''Summarize this.'')
     = (0, Inr ''  {tasks: [ , }  '')
   \<and> json_loads (stub [(0, Inr ''  {tasks: [ , }  '')] []) (strip ''  {tasks: [ , }  '') = None
   \<and> parse_natural_language_request (stub [(0, Inr ''  {tasks: [ , }  '')] []) ''Summarize this.'' w0
     = (Inr (PDict [(''tasks'', PList [])]),
        \<lparr>prompts = [parse_prompt ''Summarize this.''],
         stdout = [''[Dispatcher] JSON decoding error. Falling back to an empty plan.'']\<rparr>)"
proof -
  let ?lib = "stub [(0, Inr ''  {tasks: [ , }  '')] []"
  have a: "chat_complete ?lib (prompts w0) (parse_prompt ''Summarize this.'') = (0, Inr ''  {tasks: [ , }  '')"
    by (simp add: stub_def scripted_def w0_def)
  have b: "json_loads ?lib (strip ''  {tasks: [ , }  '') = None"
    by (simp add: stub_def)
  from parse_falls_back_on_decode_error [OF a] b
  show ?thesis using a by (simp add: empty_plan_def print_def w0_def)
qed

text \<open>An answer whose root is not an object is returned as it is too, and \<^verbatim>\<open>dispatch\<close>
  then raises \<^verbatim>\<open>AttributeError\<close> at \<^verbatim>\<open>plan.get\<close>.\<close>

lemma non_object_root_raises:
  "fst (parse_natural_language_request (stub [(0, Inr ''[]'')] [(''[]'', PList [])]) ''Summarize this.'' w0)
     = Inr (PList [])
   \<and> fst (dispatch (init main_agents) (stub [(0, Inr ''[]'')] [(''[]'', PList [])]) ''Summarize this.'' w0)
     = Inl AttributeError"
  by (simp add: dispatch_def prepare_def parse_natural_language_request_def ask_def stub_def
      scripted_def w0_def strip_def lstrip_def rstrip_def isspace_def)

section \<open>Extracting the entities\<close>

lemma split_not_Nil [simp]: "split sep s \<noteq> []"
  by (induction s) (auto split: list.splits)

lemma split_snoc:
  "c \<noteq> sep \<Longrightarrow> split sep (s @ [c]) = butlast (split sep s) @ [last (split sep s) @ [c]]"
proof (induction s)
  case Nil
  then show ?case by simp
next
  case (Cons a s)
  then show ?case
    by (cases "split sep s") (auto split: list.splits)
qed

lemma strip_Cons_space: "isspace c \<Longrightarrow> strip (c # p) = strip p"
  by (simp add: strip_def lstrip_def)

lemma rstrip_snoc_space: "isspace c \<Longrightarrow> rstrip (p @ [c]) = rstrip p"
  by (simp add: rstrip_def)

lemma strip_snoc_space:
  assumes "isspace c"
  shows "strip (p @ [c]) = strip p"
proof (cases "\<forall>x \<in> set p. isspace x")
  case True
  then have "lstrip (p @ [c]) = []" "lstrip p = []"
    using assms by (simp_all add: lstrip_def)
  then show ?thesis by (simp add: strip_def)
next
  case False
  then have "lstrip (p @ [c]) = lstrip p @ [c]"
    by (auto simp: lstrip_def dropWhile_append1)
  then show ?thesis using assms by (simp add: strip_def rstrip_snoc_space)
qed

lemma map_strip_split_lstrip:
  assumes "\<not> isspace sep"
  shows "map strip (split sep (lstrip s)) = map strip (split sep s)"
proof (induction s)
  case Nil
  then show ?case by (simp add: lstrip_def)
next
  case (Cons c s)
  show ?case
  proof (cases "isspace c")
    case False
    then show ?thesis by (simp add: lstrip_def)
  next
    case True
    with assms have ne: "c \<noteq> sep" by auto
    obtain p ps where sp: "split sep s = p # ps" by (cases "split sep s") auto
    from True have "lstrip (c # s) = lstrip s" by (simp add: lstrip_def)
    with Cons ne sp True show ?thesis by (simp add: strip_Cons_space)
  qed
qed

lemma map_strip_split_snoc:
  assumes "isspace c" "\<not> isspace sep"
  shows "map strip (split sep (s @ [c])) = map strip (split sep s)"
proof -
  from assms have ne: "c \<noteq> sep" by auto
  have "map strip (split sep (s @ [c]))
        = map strip (butlast (split sep s)) @ [strip (last (split sep s))]"
    using ne assms(1) by (simp add: split_snoc strip_snoc_space)
  also have "\<dots> = map strip (butlast (split sep s) @ [last (split sep s)])"
    by (simp only: map_append list.map)
  also have "butlast (split sep s) @ [last (split sep s)] = split sep s"
    by (rule append_butlast_last_id) simp
  finally show ?thesis .
qed

lemma map_strip_split_rstrip:
  assumes "\<not> isspace sep"
  shows "map strip (split sep (rstrip s)) = map strip (split sep s)"
proof (induction s rule: rev_induct)
  case Nil
  then show ?case by (simp add: rstrip_def)
next
  case (snoc c s)
  show ?case
  proof (cases "isspace c")
    case False
    then show ?thesis by (simp add: rstrip_def)
  next
    case True
    with snoc assms show ?thesis
      by (simp add: rstrip_snoc_space map_strip_split_snoc)
  qed
qed

lemma map_strip_split_strip:
  "\<not> isspace sep \<Longrightarrow> map strip (split sep (strip s)) = map strip (split sep s)"
  by (simp add: strip_def map_strip_split_rstrip map_strip_split_lstrip)

lemma comma_not_space: "\<not> isspace (CHR 0x2C)"
  by (simp add: isspace_def)

lemma entities_of_strip: "entities_of (strip response) = spec_entities response"
proof -
  have "entities_of (strip response)
        = filter (\<lambda>f. f \<noteq> []) (map strip (split (CHR 0x2C) (strip response)))"
    by (simp add: entities_of_def filter_map comp_def)
  also have "\<dots> = spec_entities response"
    by (simp add: spec_entities_def map_strip_split_strip [OF comma_not_space])
  finally show ?thesis .
qed

text \<open>
  Claim C7. When the entity extractor asks the oracle and gets a text, the list of
  entities that it returns is the text split on commas, each fragment trimmed, the empty
  fragments dropped, and the others in the order in which the oracle gave them. (The code
  trims the whole text first; that changes nothing.)
\<close>

theorem entities_split_trimmed_in_order:
  assumes "dict_get params ''text'' (PStr []) = Inr text"
    and "truthy text"
    and "chat_complete lib (prompts w) (extractor_prompt lib text) = (t, Inr response)"
  shows "fst (run lib \<lparr>name = n, cls = EntityExtractorAgent\<rparr> params w) =
           (Suc t, Inr [(''agent'', PStr n), (''action'', PStr ''entity_extraction''),
                        (''entities'', PList (map PStr (spec_entities response)))])"
  using assms by (simp add: run_def extractor_run_def ask_def entities_of_strip)

theorem entities_split_trimmed_in_order_witness:
  "dict_get (PDict [(''text'', PStr ''Steve and Mary saw the new Marvel.'')]) ''text'' (PStr [])
     = Inr (PStr ''Steve and Mary saw the new Marvel.'')
   \<and> truthy (PStr ''Steve and Mary saw the new Marvel.'')
   \<and> chat_complete (stub [(4, Inr ''  Steve , Mary,, Marvel ,  '')] []) (prompts w0)
        (extractor_prompt (stub [(4, Inr ''  Steve , Mary,, Marvel ,  '')] [])
           (PStr ''Steve and Mary saw the new Marvel.''))
     = (4, Inr ''  Steve , Mary,, Marvel ,  '')
   \<and> spec_entities ''  Steve , Mary,, Marvel ,  '' = [''Steve'', ''Mary'', ''Marvel'']
   \<and> fst (run (stub [(4, Inr ''  Steve , Mary,, Marvel ,  '')] [])
             \<lparr>name = ''entity_extraction'', cls = EntityExtractorAgent\<rparr>
             (PDict [(''text'', PStr ''Steve and Mary saw the new Marvel.'')]) w0)
     = (5, Inr [(''agent'', PStr ''entity_extraction''), (''action'', PStr ''entity_extraction''),
                (''entities'', PList [PStr ''Steve'', PStr ''Mary'', PStr ''Marvel''])])"
proof -
  let ?lib = "stub [(4, Inr ''  Steve , Mary,, Marvel ,  '')] []"
  let ?text = "PStr ''Steve and Mary saw the new Marvel.''"
  have a: "dict_get (PDict [(''text'', ?text)]) ''text'' (PStr []) = Inr ?text" by simp
  have b: "truthy ?text" by simp
  have c: "chat_complete ?lib (prompts w0) (extractor_prompt ?lib ?text) = (4, Inr ''  Steve , Mary,, Marvel ,  '')"
    by (simp add: stub_def scripted_def w0_def)
  have d: "spec_entities ''  Steve , Mary,, Marvel ,  '' = [''Steve'', ''Mary'', ''Marvel'']"
    by (simp add: spec_entities_def strip_def lstrip_def rstrip_def isspace_def)
  from entities_split_trimmed_in_order [OF a b c, of "''entity_extraction''"] a b c d
  show ?thesis by simp
qed

section \<open>The dispatch cycle\<close>

subsection \<open>Dictionaries, results and the stages of a cycle\<close>

lemma map_of_dict_set: "map_of (dict_set kvs k v) = (map_of kvs)(k \<mapsto> v)"
  by (induction kvs k v rule: dict_set.induct) auto

lemma keys_dict_set: "fst ` set (dict_set kvs k v) = insert k (fst ` set kvs)"
  by (induction kvs k v rule: dict_set.induct) auto

lemma distinct_dict_set:
  "distinct (map fst kvs) \<Longrightarrow> distinct (map fst (dict_set kvs k v))"
proof (induction kvs k v rule: dict_set.induct)
  case (1 k v)
  then show ?case by simp
next
  case (2 k' v' kvs k v)
  then show ?case using keys_dict_set [of kvs k v] by (auto simp: image_iff)
qed

lemma last_result_Nil: "last_result a [] = None"
  by (simp add: last_result_def)

lemma last_result_Cons:
  "last_result a (r # rs) =
     (case last_result a rs of
        Some v \<Rightarrow> Some v
      | None \<Rightarrow> if map_of r ''action'' = Some (PStr a) then Some (PDict r) else None)"
  by (simp add: last_result_def split: list.splits)

lemma last_result_SomeD:
  "last_result a rs = Some v \<Longrightarrow> \<exists>r \<in> set rs. v = PDict r \<and> map_of r ''action'' = Some (PStr a)"
proof -
  assume h: "last_result a rs = Some v"
  let ?f = "filter (\<lambda>result. map_of result ''action'' = Some (PStr a)) rs"
  from h have ne: "?f \<noteq> []" and v: "v = PDict (last ?f)"
    by (auto simp: last_result_def split: list.splits)
  from ne have "last ?f \<in> set ?f" by (rule last_in_set)
  with v show ?thesis by auto
qed

lemma last_result_present:
  "r \<in> set rs \<Longrightarrow> map_of r ''action'' = Some (PStr a) \<Longrightarrow> last_result a rs \<noteq> None"
  by (auto simp: last_result_def filter_empty_conv split: list.splits)

lemma aggregate_spec:
  "\<forall>r \<in> set rs. \<exists>a. map_of r ''action'' = Some (PStr a) \<Longrightarrow>
   \<exists>agg. aggregate rs acc = Inr agg
           \<and> (distinct (map fst acc) \<longrightarrow> distinct (map fst agg))
           \<and> (\<forall>a. map_of agg a = (case last_result a rs of None \<Rightarrow> map_of acc a | Some v \<Rightarrow> Some v))"
proof (induction rs arbitrary: acc)
  case Nil
  then show ?case by (simp add: last_result_Nil)
next
  case (Cons r rs)
  from Cons.prems obtain b where b: "map_of r ''action'' = Some (PStr b)" by auto
  from Cons.prems have rest: "\<forall>r \<in> set rs. \<exists>a. map_of r ''action'' = Some (PStr a)" by simp
  let ?acc = "dict_set acc b (PDict r)"
  from Cons.IH [OF rest, of ?acc]
  obtain agg where agg: "aggregate rs ?acc = Inr agg"
    and d: "distinct (map fst ?acc) \<longrightarrow> distinct (map fst agg)"
    and m: "\<And>a. map_of agg a = (case last_result a rs of None \<Rightarrow> map_of ?acc a | Some v \<Rightarrow> Some v)"
    by auto
  have one: "aggregate (r # rs) acc = Inr agg" using b agg by simp
  have two: "distinct (map fst acc) \<longrightarrow> distinct (map fst agg)"
    using d distinct_dict_set [of acc b "PDict r"] by simp
  have three: "map_of agg a = (case last_result a (r # rs) of None \<Rightarrow> map_of acc a | Some v \<Rightarrow> Some v)" for a
  proof (cases "last_result a rs")
    case (Some v)
    then show ?thesis by (simp add: m last_result_Cons)
  next
    case None
    show ?thesis
    proof (cases "a = b")
      case True
      with None b show ?thesis by (simp add: m last_result_Cons map_of_dict_set)
    next
      case False
      with None b show ?thesis by (simp add: m last_result_Cons map_of_dict_set)
    qed
  qed
  from one two three show ?case by simp
qed

lemma run_fields:
  assumes "run lib a params w = ((t, Inr r), w')"
  shows "map_of r ''action'' = Some (PStr (action_of (cls a)))
       \<and> map_of r ''agent'' = Some (PStr (name a))"
proof (cases "cls a")
  case InternetSearchAgent
  with assms show ?thesis
    by (auto simp: run_def search_run_def process_results_def split: sum.splits)
next
  case SummarizerAgent
  with assms show ?thesis
    by (auto simp: run_def summarizer_run_def split: sum.splits if_splits prod.splits)
next
  case EntityExtractorAgent
  with assms show ?thesis
    by (auto simp: run_def extractor_run_def split: sum.splits if_splits prod.splits)
next
  case TranslatorAgent
  with assms show ?thesis
    by (auto simp: run_def translator_run_def split: sum.splits if_splits prod.splits)
next
  case FinalFormatterAgent
  with assms show ?thesis
    by (auto simp: run_def formatter_run_def split: sum.splits if_splits prod.splits)
qed

lemma run_all_fields:
  "run_all lib tasks w = (outcomes, w') \<Longrightarrow> (t, Inr r) \<in> set outcomes \<Longrightarrow>
     \<exists>a \<in> fst ` set tasks. map_of r ''action'' = Some (PStr (action_of (cls a)))
                          \<and> map_of r ''agent'' = Some (PStr (name a))"
proof (induction tasks arbitrary: w outcomes w')
  case Nil
  then show ?case by simp
next
  case (Cons task tasks)
  obtain a params where task: "task = (a, params)" by (cases task)
  obtain o1 w1 where r1: "run lib a params w = (o1, w1)" by (cases "run lib a params w")
  obtain os w2 where r2: "run_all lib tasks w1 = (os, w2)" by (cases "run_all lib tasks w1")
  from Cons.prems(1) task r1 r2 have out: "outcomes = o1 # os" by simp
  show ?case
  proof (cases "(t, Inr r) = o1")
    case True
    with r1 have "run lib a params w = ((t, Inr r), w1)" by simp
    from run_fields [OF this] task show ?thesis by auto
  next
    case False
    with out Cons.prems(2) have "(t, Inr r) \<in> set os" by auto
    from Cons.IH [OF r2 this] show ?thesis by auto
  qed
qed

lemma returned_iff: "r \<in> set (returned outcomes) \<longleftrightarrow> (\<exists>t. (t, Inr r) \<in> set outcomes)"
  by (induction outcomes rule: returned.induct) auto

lemma first_failure_None_iff:
  "first_failure outcomes = None \<longleftrightarrow> (\<forall>t e. (t, Inl e) \<notin> set outcomes)"
  by (induction outcomes rule: first_failure.induct) (auto split: option.splits)

lemma gather_Inr_iff: "gather outcomes = Inr rs \<longleftrightarrow> first_failure outcomes = None \<and> rs = returned outcomes"
  by (auto simp: gather_def split: option.splits)

lemma collect_registered:
  "collect d lib todo acc w = (Inr tasks, w') \<Longrightarrow> (a, params) \<in> set tasks \<Longrightarrow>
     (a, params) \<in> set acc \<or> (\<exists>b. map_of (action_to_agent d) b = Some (Some a))"
proof (induction todo arbitrary: acc w)
  case Nil
  then show ?case by simp
next
  case (Cons task todo)
  from Cons.prems(1) obtain action ps where
    act: "dict_get task ''action'' PNone = Inr action" and
    ps: "dict_get task ''params'' (PDict []) = Inr ps"
    by (auto split: sum.splits)
  from Cons.prems(1) act ps obtain found where found: "lookup_agent d action = Inr found"
    by (auto split: sum.splits)
  show ?case
  proof (cases found)
    case None
    with Cons.prems(1) act ps found
    have "collect d lib todo acc (print (diagnostic lib action) w) = (Inr tasks, w')" by simp
    from Cons.IH [OF this Cons.prems(2)] show ?thesis .
  next
    case (Some ag)
    with Cons.prems(1) act ps found
    have "collect d lib todo (acc @ [(ag, ps)]) w = (Inr tasks, w')" by simp
    from Cons.IH [OF this Cons.prems(2)]
    have "(a, params) \<in> set (acc @ [(ag, ps)]) \<or> (\<exists>b. map_of (action_to_agent d) b = Some (Some a))" .
    moreover have "\<exists>b. map_of (action_to_agent d) b = Some (Some ag)"
      using found Some by (cases action) (auto split: option.splits)
    ultimately show ?thesis by auto
  qed
qed

lemma prepare_registered:
  assumes "prepare d lib user_request w = (Inr tasks, w2)" and "(a, params) \<in> set tasks"
  shows "\<exists>b. map_of (action_to_agent d) b = Some (Some a)"
proof -
  from assms(1) obtain todo w1 where "collect d lib todo [] w1 = (Inr tasks, w2)"
    by (auto simp: prepare_def split: prod.splits sum.splits)
  from collect_registered [OF this assms(2)] show ?thesis by simp
qed

lemma dispatch_aggregate:
  assumes "prepare d lib user_request w = (Inr tasks, w2)"
    and "run_all lib tasks w2 = (outcomes, w3)"
    and "first_failure outcomes = None"
  shows "\<exists>aggregated. dispatch d lib user_request w = (Inr aggregated, w3)
           \<and> distinct (map fst aggregated)
           \<and> (\<forall>a. map_of aggregated a = last_result a (returned outcomes))"
proof -
  have g: "gather outcomes = Inr (returned outcomes)"
    using assms(3) by (simp add: gather_def)
  have "\<forall>r \<in> set (returned outcomes). \<exists>a. map_of r ''action'' = Some (PStr a)"
  proof
    fix r assume "r \<in> set (returned outcomes)"
    then obtain t where "(t, Inr r) \<in> set outcomes" by (auto simp: returned_iff)
    from run_all_fields [OF assms(2) this] show "\<exists>a. map_of r ''action'' = Some (PStr a)" by blast
  qed
  from aggregate_spec [OF this, of "[]"]
  obtain agg where a1: "aggregate (returned outcomes) [] = Inr agg"
    and a2: "distinct (map fst agg)"
    and a3: "\<forall>a. map_of agg a = (case last_result a (returned outcomes) of
                 None \<Rightarrow> map_of [] a | Some v \<Rightarrow> Some v)"
    by auto
  have "map_of agg a = last_result a (returned outcomes)" for a
    by (simp add: a3 split: option.splits)
  moreover have "dispatch d lib user_request w = (Inr agg, w3)"
    using assms(1,2) g a1 by (simp add: dispatch_def)
  ultimately show ?thesis using a2 by blast
qed

lemma dispatch_InrD:
  assumes "dispatch d lib user_request w = (Inr aggregated, w')"
  shows "\<exists>tasks w2 outcomes. prepare d lib user_request w = (Inr tasks, w2)
           \<and> run_all lib tasks w2 = (outcomes, w') \<and> first_failure outcomes = None"
proof -
  obtain pr w2 where p: "prepare d lib user_request w = (pr, w2)" by (cases "prepare d lib user_request w")
  with assms obtain tasks where t: "pr = Inr tasks" by (cases pr) (auto simp: dispatch_def)
  obtain outcomes w3 where r: "run_all lib tasks w2 = (outcomes, w3)" by (cases "run_all lib tasks w2")
  from assms p t r have "w3 = w'" "\<exists>rs. gather outcomes = Inr rs"
    by (auto simp: dispatch_def split: sum.splits)
  then show ?thesis using p t r by (auto simp: gather_Inr_iff)
qed

lemma registry_soundD:
  "registry_sound d \<Longrightarrow> map_of (action_to_agent d) b = Some (Some a) \<Longrightarrow> action_of (cls a) = b"
  by (auto simp: registry_sound_def list_all_iff dest!: map_of_SomeD)

lemma init_keys: "map_of (action_to_agent (init ags)) b = Some found \<Longrightarrow> b \<in> set actions"
  by (auto simp: init_def Let_def actions_def split: if_splits)

lemma collect_append:
  "collect d lib (xs @ ys) acc w =
     (case collect d lib xs acc w of
        (Inl e, w') \<Rightarrow> (Inl e, w')
      | (Inr acc', w') \<Rightarrow> collect d lib ys acc' w')"
  by (induction xs arbitrary: acc w) (simp_all split: sum.splits option.splits)

text \<open>The loop only appends to the list of coroutines, task after task, and the outcomes
  are those of the coroutines, one for one: the results come in the order of the plan.\<close>

lemma collect_extends:
  "collect d lib todo acc w = (Inr tasks, w') \<Longrightarrow> \<exists>new. tasks = acc @ new"
proof (induction todo arbitrary: acc w)
  case Nil
  then show ?case by simp
next
  case (Cons task todo)
  from Cons.prems obtain action ps found where
    "dict_get task ''action'' PNone = Inr action"
    "dict_get task ''params'' (PDict []) = Inr ps"
    "lookup_agent d action = Inr found"
    by (auto split: sum.splits)
  with Cons.prems have
    "(\<exists>a. collect d lib todo (acc @ [(a, ps)]) w = (Inr tasks, w'))
     \<or> collect d lib todo acc (print (diagnostic lib action) w) = (Inr tasks, w')"
    by (cases found) auto
  with Cons.IH show ?case by (metis append.assoc)
qed

lemma run_all_length: "run_all lib tasks w = (outcomes, w') \<Longrightarrow> length outcomes = length tasks"
  by (induction tasks arbitrary: w outcomes w') (auto split: prod.splits)

lemma unregistered_no_entry:
  assumes sound: "registry_sound d"
    and unregistered: "lookup_agent d (PStr a) = Inr None"
    and p: "prepare d lib user_request w = (Inr tasks, w2)"
    and r: "run_all lib tasks w2 = (outcomes, w3)"
  shows "last_result a (returned outcomes) = None"
proof (rule ccontr)
  assume "last_result a (returned outcomes) \<noteq> None"
  then obtain v where "last_result a (returned outcomes) = Some v" by auto
  from last_result_SomeD [OF this] obtain result where
    res: "result \<in> set (returned outcomes)" "map_of result ''action'' = Some (PStr a)" by blast
  from res(1) obtain t where "(t, Inr result) \<in> set outcomes" by (auto simp: returned_iff)
  from run_all_fields [OF r this] obtain ag where
    ag: "ag \<in> fst ` set tasks" "map_of result ''action'' = Some (PStr (action_of (cls ag)))" by blast
  from ag(2) res(2) have a: "a = action_of (cls ag)" by simp
  from ag(1) obtain params where "(ag, params) \<in> set tasks" by auto
  from prepare_registered [OF p this] obtain b where
    b: "map_of (action_to_agent d) b = Some (Some ag)" by blast
  from registry_soundD [OF sound b] a have "b = a" by simp
  with b have "lookup_agent d (PStr a) = Inr (Some ag)" by simp
  with unregistered show False by simp
qed

text \<open>The coroutines that the loop collects are those of the tasks of the plan that have a
  registered action, in the order of the plan.\<close>

lemma map_filter_append:
  "List.map_filter f (xs @ ys) = List.map_filter f xs @ List.map_filter f ys"
  by (simp add: List.map_filter_def)

lemma collect_map_filter:
  "collect d lib todo acc w = (Inr tasks, w') \<Longrightarrow>
     tasks = acc @ List.map_filter (coroutine_of d) todo"
proof (induction todo arbitrary: acc w)
  case Nil
  then show ?case by simp
next
  case (Cons task todo)
  from Cons.prems obtain action ps found where
    a: "dict_get task ''action'' PNone = Inr action"
    and p: "dict_get task ''params'' (PDict []) = Inr ps"
    and f: "lookup_agent d action = Inr found"
    by (auto split: sum.splits)
  show ?case
  proof (cases found)
    case None
    with Cons.prems a p f
    have "collect d lib todo acc (print (diagnostic lib action) w) = (Inr tasks, w')" by simp
    from Cons.IH [OF this] a p f None show ?thesis by (simp add: coroutine_of_def)
  next
    case (Some ag)
    with Cons.prems a p f
    have "collect d lib todo (acc @ [(ag, ps)]) w = (Inr tasks, w')" by simp
    from Cons.IH [OF this] a p f Some show ?thesis by (simp add: coroutine_of_def)
  qed
qed


lemma collect_stdout:
  "collect d lib todo acc w = (r, w') \<Longrightarrow> \<exists>more. stdout w' = stdout w @ more"
proof (induction todo arbitrary: acc w)
  case Nil
  then show ?case by simp
next
  case (Cons task todo)
  show ?case
  proof (cases "dict_get task ''action'' PNone")
    case (Inl e)
    with Cons.prems show ?thesis by simp
  next
    case a: (Inr action)
    show ?thesis
    proof (cases "dict_get task ''params'' (PDict [])")
      case (Inl e)
      with Cons.prems a show ?thesis by simp
    next
      case p: (Inr ps)
      show ?thesis
      proof (cases "lookup_agent d action")
        case (Inl e)
        with Cons.prems a p show ?thesis by simp
      next
        case f: (Inr found)
        show ?thesis
        proof (cases found)
          case None
          with Cons.prems a p f
          have "collect d lib todo acc (print (diagnostic lib action) w) = (r, w')" by simp
          from Cons.IH [OF this] show ?thesis by (auto simp: print_def)
        next
          case (Some ag)
          with Cons.prems a p f
          have "collect d lib todo (acc @ [(ag, ps)]) w = (r, w')" by simp
          from Cons.IH [OF this] show ?thesis .
        qed
      qed
    qed
  qed
qed


lemma run_all_nth:
  "run_all lib tasks w = (outcomes, w') \<Longrightarrow> n < length tasks \<Longrightarrow>
     \<exists>wn wn'. run_all lib (take n tasks) w = (take n outcomes, wn)
              \<and> run lib (fst (tasks ! n)) (snd (tasks ! n)) wn = (outcomes ! n, wn')"
proof (induction tasks arbitrary: w outcomes n w')
  case Nil
  then show ?case by simp
next
  case (Cons task tasks)
  obtain a params where task: "task = (a, params)" by (cases task)
  obtain o1 w1 where r1: "run lib a params w = (o1, w1)" by (cases "run lib a params w")
  obtain os w2 where r2: "run_all lib tasks w1 = (os, w2)" by (cases "run_all lib tasks w1")
  from Cons.prems(1) task r1 r2 have out: "outcomes = o1 # os" by simp
  show ?case
  proof (cases n)
    case 0
    with task r1 out show ?thesis by simp
  next
    case (Suc m)
    with Cons.prems(2) have "m < length tasks" by simp
    from Cons.IH [OF r2 this] obtain wn wn' where
      "run_all lib (take m tasks) w1 = (take m os, wn)"
      "run lib (fst (tasks ! m)) (snd (tasks ! m)) wn = (os ! m, wn')" by blast
    with Suc task r1 out show ?thesis by simp
  qed
qed





lemma action_of_five: "action_of c \<in> set (actions @ [''final_format''])"
  by (cases c) (simp_all add: actions_def)


text \<open>The loop raises nothing on tasks that are objects with a string for action.\<close>

lemma collect_total:
  "\<forall>task \<in> set todo. \<exists>b. dict_get task ''action'' PNone = Inr (PStr b) \<Longrightarrow>
     \<exists>tasks w'. collect d lib todo acc w = (Inr tasks, w')"
proof (induction todo arbitrary: acc w)
  case Nil
  then show ?case by simp
next
  case (Cons task todo)
  then obtain b where b: "dict_get task ''action'' PNone = Inr (PStr b)" by auto
  then obtain kvs where "task = PDict kvs" by (cases task) auto
  then obtain ps where ps: "dict_get task ''params'' (PDict []) = Inr ps" by simp
  from Cons.prems have rest: "\<forall>task \<in> set todo. \<exists>b. dict_get task ''action'' PNone = Inr (PStr b)"
    by simp
  obtain found where f: "lookup_agent d (PStr b) = Inr found" by simp
  show ?case
  proof (cases found)
    case None
    with b ps f Cons.IH [OF rest, of acc "print (diagnostic lib (PStr b)) w"]
    show ?thesis by simp
  next
    case (Some ag)
    with b ps f Cons.IH [OF rest, of "acc @ [(ag, ps)]" w]
    show ?thesis by simp
  qed
qed

text \<open>The definitions that a run on concrete input unfolds.\<close>

lemmas eval_simps =
  dispatch_def prepare_def parse_natural_language_request_def ask_def stub_def scripted_def
  w0_def strip_def lstrip_def rstrip_def isspace_def init_def index_by_name_def main_agents_def
  print_def diagnostic_def fmt_def run_def summarizer_run_def extractor_run_def
  translator_run_def search_run_def formatter_run_def gather_def plan_of_def task_of_def
  Let_def

subsection \<open>A failing invocation\<close>

text \<open>
  Claim C3. In a dispatch cycle that got as far as running its coroutines, if one of the
  invocations raises, \<^verbatim>\<open>dispatch\<close> raises too: it returns no aggregate, neither a
  complete nor a partial one.
\<close>

theorem failing_invocation_aborts_dispatch:
  assumes "prepare d lib user_request w = (Inr tasks, w2)"
    and "run_all lib tasks w2 = (outcomes, w3)"
    and "(t, Inl e) \<in> set outcomes"
  shows "\<exists>e'. dispatch d lib user_request w = (Inl e', w3)"
proof -
  from assms(3) have "first_failure outcomes \<noteq> None"
    by (auto simp: first_failure_None_iff)
  then obtain t' e' where "first_failure outcomes = Some (t', e')" by auto
  then have "gather outcomes = Inl e'" by (simp add: gather_def)
  with assms(1,2) show ?thesis by (simp add: dispatch_def)
qed

theorem failing_invocation_aborts_dispatch_witness:
  "fst (prepare (init main_agents) (stub [(0, Inr ''PLAN''), (3, Inl (ClientError ''503'')), (1, Inr ''Hello'')]
        [(''PLAN'', plan_of [task_of ''summarize'' ''A long text.'', task_of ''translate'' ''Bonjour''])]) ''Summarize and translate.'' w0) = Inr [(\<lparr>name = ''summarizer'', cls = SummarizerAgent\<rparr>, PDict [(''text'', PStr ''A long text.'')]),
      (\<lparr>name = ''translator'', cls = TranslatorAgent\<rparr>, PDict [(''text'', PStr ''Bonjour'')])]
   \<and> fst (run_all (stub [(0, Inr ''PLAN''), (3, Inl (ClientError ''503'')), (1, Inr ''Hello'')]
        [(''PLAN'', plan_of [task_of ''summarize'' ''A long text.'', task_of ''translate'' ''Bonjour''])]) [(\<lparr>name = ''summarizer'', cls = SummarizerAgent\<rparr>, PDict [(''text'', PStr ''A long text.'')]),
      (\<lparr>name = ''translator'', cls = TranslatorAgent\<rparr>, PDict [(''text'', PStr ''Bonjour'')])] (snd (prepare (init main_agents) (stub [(0, Inr ''PLAN''), (3, Inl (ClientError ''503'')), (1, Inr ''Hello'')]
        [(''PLAN'', plan_of [task_of ''summarize'' ''A long text.'', task_of ''translate'' ''Bonjour''])]) ''Summarize and translate.'' w0))) = [(4, Inl (ClientError ''503'')), (2, Inr [(''agent'', PStr ''translator''), (''action'', PStr ''translate''), (''translated_text'', PStr ''Hello'')])]
   \<and> (4, Inl (ClientError ''503'')) \<in> set [(4, Inl (ClientError ''503'')), (2, Inr [(''agent'', PStr ''translator''), (''action'', PStr ''translate''), (''translated_text'', PStr ''Hello'')])]
   \<and> (\<exists>e'. dispatch (init main_agents) (stub [(0, Inr ''PLAN''), (3, Inl (ClientError ''503'')), (1, Inr ''Hello'')]
        [(''PLAN'', plan_of [task_of ''summarize'' ''A long text.'', task_of ''translate'' ''Bonjour''])]) ''Summarize and translate.'' w0 = (Inl e', snd (run_all (stub [(0, Inr ''PLAN''), (3, Inl (ClientError ''503'')), (1, Inr ''Hello'')]
        [(''PLAN'', plan_of [task_of ''summarize'' ''A long text.'', task_of ''translate'' ''Bonjour''])]) [(\<lparr>name = ''summarizer'', cls = SummarizerAgent\<rparr>, PDict [(''text'', PStr ''A long text.'')]),
      (\<lparr>name = ''translator'', cls = TranslatorAgent\<rparr>, PDict [(''text'', PStr ''Bonjour'')])] (snd (prepare (init main_agents) (stub [(0, Inr ''PLAN''), (3, Inl (ClientError ''503'')), (1, Inr ''Hello'')]
        [(''PLAN'', plan_of [task_of ''summarize'' ''A long text.'', task_of ''translate'' ''Bonjour''])]) ''Summarize and translate.'' w0)))))
   \<and> fst (dispatch (init main_agents) (stub [(0, Inr ''PLAN''), (3, Inl (ClientError ''503'')), (1, Inr ''Hello'')]
        [(''PLAN'', plan_of [task_of ''summarize'' ''A long text.'', task_of ''translate'' ''Bonjour''])]) ''Summarize and translate.'' w0) = Inl (ClientError ''503'')"
proof -
  let ?lib = "(stub [(0, Inr ''PLAN''), (3, Inl (ClientError ''503'')), (1, Inr ''Hello'')]
        [(''PLAN'', plan_of [task_of ''summarize'' ''A long text.'', task_of ''translate'' ''Bonjour''])])"
  let ?tasks = "[(\<lparr>name = ''summarizer'', cls = SummarizerAgent\<rparr>, PDict [(''text'', PStr ''A long text.'')]),
      (\<lparr>name = ''translator'', cls = TranslatorAgent\<rparr>, PDict [(''text'', PStr ''Bonjour'')])]"
  let ?outs = "[(4, Inl (ClientError ''503'')), (2, Inr [(''agent'', PStr ''translator''), (''action'', PStr ''translate''), (''translated_text'', PStr ''Hello'')])]"
  let ?w2 = "snd (prepare (init main_agents) ?lib ''Summarize and translate.'' w0)"
  have p1: "fst (prepare (init main_agents) ?lib ''Summarize and translate.'' w0) = Inr ?tasks"
    by (simp add: eval_simps)
  have r1: "fst (run_all ?lib ?tasks ?w2) = ?outs"
    by (simp add: eval_simps)
  have m: "(4, Inl (ClientError ''503'')) \<in> set ?outs" by simp
  have f: "fst (dispatch (init main_agents) ?lib ''Summarize and translate.'' w0) = Inl (ClientError ''503'')"
    by (simp add: eval_simps)
  from p1 have p: "prepare (init main_agents) ?lib ''Summarize and translate.'' w0 = (Inr ?tasks, ?w2)"
    by (simp add: prod_eq_iff)
  from r1 have r: "run_all ?lib ?tasks ?w2 = (?outs, snd (run_all ?lib ?tasks ?w2))"
    by (simp add: prod_eq_iff)
  from failing_invocation_aborts_dispatch [OF p r m] p1 r1 m f
  show ?thesis by simp
qed

subsection \<open>Two tasks with the same action\<close>




subsection \<open>A task with an unknown action\<close>

text \<open>
  Claim C4, as stated: the aggregate has no entry for the action of a task that has no
  registered agent. It fails when the agent of another task answers with that action: with
  a \<^verbatim>\<open>TranslatorAgent\<close> registered under the name \<open>summarizer\<close> and no agent named
  \<open>translator\<close>, the task \<open>translate\<close> is dropped with its diagnostic, and the task
  \<open>summarize\<close> puts an entry \<open>translate\<close> into the aggregate.
\<close>

theorem unregistered_entry_counterexample:
  "lookup_agent (init [\<lparr>name = ''summarizer'', cls = TranslatorAgent\<rparr>]) (PStr ''translate'') = Inr None
   \<and> stdout (snd (dispatch (init [\<lparr>name = ''summarizer'', cls = TranslatorAgent\<rparr>]) (stub [(0, Inr ''PLAN''), (1, Inr ''Hello'')]
          [(''PLAN'', plan_of [task_of ''translate'' ''Bonjour'', task_of ''summarize'' ''Salut''])]) ''Translate and summarize.'' w0)) = [''[Dispatcher] No matching agent found for action '' @ [CHR 0x27] @ ''translate'' @ [CHR 0x27] @ ''.'']
   \<and> fst (dispatch (init [\<lparr>name = ''summarizer'', cls = TranslatorAgent\<rparr>]) (stub [(0, Inr ''PLAN''), (1, Inr ''Hello'')]
          [(''PLAN'', plan_of [task_of ''translate'' ''Bonjour'', task_of ''summarize'' ''Salut''])]) ''Translate and summarize.'' w0)
       = Inr [(''translate'', PDict [(''agent'', PStr ''summarizer''), (''action'', PStr ''translate''), (''translated_text'', PStr ''Hello'')])]
   \<and> map_of [(''translate'', PDict [(''agent'', PStr ''summarizer''), (''action'', PStr ''translate''), (''translated_text'', PStr ''Hello'')])] ''translate'' \<noteq> None"
  by (simp add: eval_simps coroutine_of_def)

text \<open>
  Claim C4, amended. Let a task of the plan name an action \<open>a\<close> for which the registry has no
  agent, the loop having reached the task. Then the loop prints its diagnostic and goes on
  with the remaining tasks and the same coroutines as before: it raises nothing and
  launches nothing for the task. When the loop ends, the coroutines are those of the other
  tasks of the plan, in order, and the diagnostic has been printed; each of them is run, in
  turn, and has its outcome. If every one returns, \<^verbatim>\<open>dispatch\<close> returns an aggregate, which
  has an entry for the action that each of these agents answers with and, when the
  registry is sound, no entry for \<open>a\<close>. And the loop does end when the tasks after this one
  are objects with a string for action.
\<close>

theorem unregistered_action_is_skipped:
  assumes parse: "parse_natural_language_request lib user_request w = (Inr plan, w1)"
    and todo: "dict_get plan ''tasks'' (PList []) = Inr (PList (before @ task # after))"
    and action: "dict_get task ''action'' PNone = Inr (PStr a)"
    and unregistered: "lookup_agent d (PStr a) = Inr None"
    and before: "collect d lib before [] w1 = (Inr launched, wb)"
  shows "prepare d lib user_request w
           = collect d lib after launched (print (diagnostic lib (PStr a)) wb)
       \<and> (\<forall>tasks w2 outcomes w3.
             prepare d lib user_request w = (Inr tasks, w2)
             \<and> run_all lib tasks w2 = (outcomes, w3)
             \<longrightarrow> tasks = List.map_filter (coroutine_of d) (before @ after)
                 \<and> diagnostic lib (PStr a) \<in> set (stdout w2)
                 \<and> length outcomes = length tasks
                 \<and> (\<forall>n < length tasks. \<exists>wn wn'.
                        run_all lib (take n tasks) w2 = (take n outcomes, wn)
                        \<and> run lib (fst (tasks ! n)) (snd (tasks ! n)) wn = (outcomes ! n, wn'))
                 \<and> (first_failure outcomes = None \<longrightarrow>
                       (\<exists>aggregated.
                          dispatch d lib user_request w = (Inr aggregated, w3)
                          \<and> (\<forall>n < length tasks.
                                map_of aggregated (action_of (cls (fst (tasks ! n)))) \<noteq> None)
                          \<and> (registry_sound d \<longrightarrow> map_of aggregated a = None))))
       \<and> ((\<forall>other \<in> set after. \<exists>b. dict_get other ''action'' PNone = Inr (PStr b))
            \<longrightarrow> (\<exists>tasks w2. prepare d lib user_request w = (Inr tasks, w2)))"
proof (intro conjI allI impI)
  from action obtain kvs where "task = PDict kvs" by (cases task) auto
  then obtain ps where ps: "dict_get task ''params'' (PDict []) = Inr ps" by simp
  have none: "coroutine_of d task = None"
    using action ps unregistered by (simp add: coroutine_of_def)
  have "collect d lib (task # after) launched wb
          = collect d lib after launched (print (diagnostic lib (PStr a)) wb)"
    using action ps unregistered by simp
  then have whole: "collect d lib (before @ task # after) [] w1
          = collect d lib after launched (print (diagnostic lib (PStr a)) wb)"
    using before by (simp add: collect_append)
  then show first: "prepare d lib user_request w
           = collect d lib after launched (print (diagnostic lib (PStr a)) wb)"
    using parse todo by (simp add: prepare_def)
  fix tasks w2 outcomes w3
  assume h: "prepare d lib user_request w = (Inr tasks, w2)
             \<and> run_all lib tasks w2 = (outcomes, w3)"
  then have p: "prepare d lib user_request w = (Inr tasks, w2)"
    and r: "run_all lib tasks w2 = (outcomes, w3)" by auto
  from p first whole have c: "collect d lib (before @ task # after) [] w1 = (Inr tasks, w2)"
    by simp
  from collect_map_filter [OF c] none
  show "tasks = List.map_filter (coroutine_of d) (before @ after)"
    by (simp add: map_filter_append)
  from p first have "collect d lib after launched (print (diagnostic lib (PStr a)) wb)
                       = (Inr tasks, w2)" by simp
  from collect_stdout [OF this]
  show "diagnostic lib (PStr a) \<in> set (stdout w2)" by (auto simp: print_def)
  from run_all_length [OF r] show len: "length outcomes = length tasks" .
  {
    fix n assume n: "n < length tasks"
    from run_all_nth [OF r n]
    show "\<exists>wn wn'. run_all lib (take n tasks) w2 = (take n outcomes, wn)
                   \<and> run lib (fst (tasks ! n)) (snd (tasks ! n)) wn = (outcomes ! n, wn')" .
  }
  assume f: "first_failure outcomes = None"
  from dispatch_aggregate [OF p r f] obtain aggregated where
    d: "dispatch d lib user_request w = (Inr aggregated, w3)" and
    m: "\<forall>a. map_of aggregated a = last_result a (returned outcomes)" by blast
  have every: "\<forall>n < length tasks. map_of aggregated (action_of (cls (fst (tasks ! n)))) \<noteq> None"
  proof (intro allI impI)
    fix n assume n: "n < length tasks"
    from run_all_nth [OF r n] obtain wn wn' where
      rn: "run lib (fst (tasks ! n)) (snd (tasks ! n)) wn = (outcomes ! n, wn')" by blast
    from n len have mem: "outcomes ! n \<in> set outcomes" by simp
    obtain t res where o: "outcomes ! n = (t, res)" by (cases "outcomes ! n")
    from f mem o have "\<exists>result. res = Inr result"
      by (cases res) (auto simp: first_failure_None_iff)
    then obtain result where res: "res = Inr result" by blast
    from rn o res have "run lib (fst (tasks ! n)) (snd (tasks ! n)) wn = ((t, Inr result), wn')"
      by simp
    from run_fields [OF this]
    have "map_of result ''action'' = Some (PStr (action_of (cls (fst (tasks ! n)))))" by simp
    moreover from mem o res have "result \<in> set (returned outcomes)"
      by (auto simp: returned_iff)
    ultimately have "last_result (action_of (cls (fst (tasks ! n)))) (returned outcomes) \<noteq> None"
      by (rule last_result_present [rotated])
    with m show "map_of aggregated (action_of (cls (fst (tasks ! n)))) \<noteq> None" by simp
  qed
  have "registry_sound d \<longrightarrow> map_of aggregated a = None"
    using unregistered_no_entry [OF _ unregistered p r] m by simp
  with d every
  show "\<exists>aggregated.
          dispatch d lib user_request w = (Inr aggregated, w3)
          \<and> (\<forall>n < length tasks.
                map_of aggregated (action_of (cls (fst (tasks ! n)))) \<noteq> None)
          \<and> (registry_sound d \<longrightarrow> map_of aggregated a = None)" by blast
next
  assume "\<forall>other \<in> set after. \<exists>b. dict_get other ''action'' PNone = Inr (PStr b)"
  from collect_total [OF this]
  obtain tasks w2 where
    "collect d lib after launched (print (diagnostic lib (PStr a)) wb) = (Inr tasks, w2)"
    by blast
  moreover
  from action obtain kvs where "task = PDict kvs" by (cases task) auto
  then obtain ps where ps: "dict_get task ''params'' (PDict []) = Inr ps" by simp
  have "collect d lib (before @ task # after) [] w1
          = collect d lib after launched (print (diagnostic lib (PStr a)) wb)"
    using action ps unregistered before by (simp add: collect_append)
  ultimately show "\<exists>tasks w2. prepare d lib user_request w = (Inr tasks, w2)"
    using parse todo by (simp add: prepare_def)
qed

theorem unregistered_action_is_skipped_witness:
  "fst (parse_natural_language_request (stub [(0, Inr ''PLAN''), (1, Inr ''Hello''), (2, Inr ''A summary.'')]
        [(''PLAN'', plan_of [task_of ''translate'' ''Bonjour'', task_of ''classify'' ''Bonjour'',
                             task_of ''summarize'' ''A long text.''])]) ''Translate, classify and summarize.'' w0) = Inr (plan_of [task_of ''translate'' ''Bonjour'', task_of ''classify'' ''Bonjour'',
                 task_of ''summarize'' ''A long text.''])
   \<and> dict_get (plan_of [task_of ''translate'' ''Bonjour'', task_of ''classify'' ''Bonjour'',
                 task_of ''summarize'' ''A long text.'']) ''tasks'' (PList []) = Inr (PList ([task_of ''translate'' ''Bonjour''] @ task_of ''classify'' ''Bonjour'' # [task_of ''summarize'' ''A long text.'']))
   \<and> dict_get (task_of ''classify'' ''Bonjour'') ''action'' PNone = Inr (PStr ''classify'')
   \<and> lookup_agent (init main_agents) (PStr ''classify'') = Inr None
   \<and> fst (collect (init main_agents) (stub [(0, Inr ''PLAN''), (1, Inr ''Hello''), (2, Inr ''A summary.'')]
        [(''PLAN'', plan_of [task_of ''translate'' ''Bonjour'', task_of ''classify'' ''Bonjour'',
                             task_of ''summarize'' ''A long text.''])]) [task_of ''translate'' ''Bonjour''] [] (snd (parse_natural_language_request (stub [(0, Inr ''PLAN''), (1, Inr ''Hello''), (2, Inr ''A summary.'')]
        [(''PLAN'', plan_of [task_of ''translate'' ''Bonjour'', task_of ''classify'' ''Bonjour'',
                             task_of ''summarize'' ''A long text.''])]) ''Translate, classify and summarize.'' w0)))
       = Inr [(\<lparr>name = ''translator'', cls = TranslatorAgent\<rparr>, PDict [(''text'', PStr ''Bonjour'')])]
   \<and> registry_sound (init main_agents)
   \<and> fst (prepare (init main_agents) (stub [(0, Inr ''PLAN''), (1, Inr ''Hello''), (2, Inr ''A summary.'')]
        [(''PLAN'', plan_of [task_of ''translate'' ''Bonjour'', task_of ''classify'' ''Bonjour'',
                             task_of ''summarize'' ''A long text.''])]) ''Translate, classify and summarize.'' w0) = Inr [(\<lparr>name = ''translator'', cls = TranslatorAgent\<rparr>, PDict [(''text'', PStr ''Bonjour'')]),
      (\<lparr>name = ''summarizer'', cls = SummarizerAgent\<rparr>, PDict [(''text'', PStr ''A long text.'')])]
   \<and> stdout (snd (prepare (init main_agents) (stub [(0, Inr ''PLAN''), (1, Inr ''Hello''), (2, Inr ''A summary.'')]
        [(''PLAN'', plan_of [task_of ''translate'' ''Bonjour'', task_of ''classify'' ''Bonjour'',
                             task_of ''summarize'' ''A long text.''])]) ''Translate, classify and summarize.'' w0)) = [''[Dispatcher] No matching agent found for action '' @ [CHR 0x27] @ ''classify'' @ [CHR 0x27] @ ''.'']
   \<and> fst (run_all (stub [(0, Inr ''PLAN''), (1, Inr ''Hello''), (2, Inr ''A summary.'')]
        [(''PLAN'', plan_of [task_of ''translate'' ''Bonjour'', task_of ''classify'' ''Bonjour'',
                             task_of ''summarize'' ''A long text.''])]) [(\<lparr>name = ''translator'', cls = TranslatorAgent\<rparr>, PDict [(''text'', PStr ''Bonjour'')]),
      (\<lparr>name = ''summarizer'', cls = SummarizerAgent\<rparr>, PDict [(''text'', PStr ''A long text.'')])] (snd (prepare (init main_agents) (stub [(0, Inr ''PLAN''), (1, Inr ''Hello''), (2, Inr ''A summary.'')]
        [(''PLAN'', plan_of [task_of ''translate'' ''Bonjour'', task_of ''classify'' ''Bonjour'',
                             task_of ''summarize'' ''A long text.''])]) ''Translate, classify and summarize.'' w0))) = [(2 :: nat, Inr [(''agent'', PStr ''translator''), (''action'', PStr ''translate''), (''translated_text'', PStr ''Hello'')] :: exn + pydict),
      (3, Inr [(''agent'', PStr ''summarizer''), (''action'', PStr ''summarize''), (''summary'', PStr ''A summary.'')])]
   \<and> first_failure [(2 :: nat, Inr [(''agent'', PStr ''translator''), (''action'', PStr ''translate''), (''translated_text'', PStr ''Hello'')] :: exn + pydict),
      (3, Inr [(''agent'', PStr ''summarizer''), (''action'', PStr ''summarize''), (''summary'', PStr ''A summary.'')])] = None
   \<and> fst (dispatch (init main_agents) (stub [(0, Inr ''PLAN''), (1, Inr ''Hello''), (2, Inr ''A summary.'')]
        [(''PLAN'', plan_of [task_of ''translate'' ''Bonjour'', task_of ''classify'' ''Bonjour'',
                             task_of ''summarize'' ''A long text.''])]) ''Translate, classify and summarize.'' w0) = Inr [(''translate'', PDict [(''agent'', PStr ''translator''), (''action'', PStr ''translate''), (''translated_text'', PStr ''Hello'')]),
      (''summarize'', PDict [(''agent'', PStr ''summarizer''), (''action'', PStr ''summarize''), (''summary'', PStr ''A summary.'')])]
   \<and> map_of [(''translate'', PDict [(''agent'', PStr ''translator''), (''action'', PStr ''translate''), (''translated_text'', PStr ''Hello'')]),
      (''summarize'', PDict [(''agent'', PStr ''summarizer''), (''action'', PStr ''summarize''), (''summary'', PStr ''A summary.'')])] ''classify'' = None
   \<and> map_of [(''translate'', PDict [(''agent'', PStr ''translator''), (''action'', PStr ''translate''), (''translated_text'', PStr ''Hello'')]),
      (''summarize'', PDict [(''agent'', PStr ''summarizer''), (''action'', PStr ''summarize''), (''summary'', PStr ''A summary.'')])] ''translate'' \<noteq> None
   \<and> map_of [(''translate'', PDict [(''agent'', PStr ''translator''), (''action'', PStr ''translate''), (''translated_text'', PStr ''Hello'')]),
      (''summarize'', PDict [(''agent'', PStr ''summarizer''), (''action'', PStr ''summarize''), (''summary'', PStr ''A summary.'')])] ''summarize'' \<noteq> None"
proof -
  let ?lib = "(stub [(0, Inr ''PLAN''), (1, Inr ''Hello''), (2, Inr ''A summary.'')]
        [(''PLAN'', plan_of [task_of ''translate'' ''Bonjour'', task_of ''classify'' ''Bonjour'',
                             task_of ''summarize'' ''A long text.''])])"
  let ?plan = "(plan_of [task_of ''translate'' ''Bonjour'', task_of ''classify'' ''Bonjour'',
                 task_of ''summarize'' ''A long text.''])"
  let ?w1 = "snd (parse_natural_language_request ?lib ''Translate, classify and summarize.'' w0)"
  let ?w2 = "snd (prepare (init main_agents) ?lib ''Translate, classify and summarize.'' w0)"
  let ?tasks = "[(\<lparr>name = ''translator'', cls = TranslatorAgent\<rparr>, PDict [(''text'', PStr ''Bonjour'')]),
      (\<lparr>name = ''summarizer'', cls = SummarizerAgent\<rparr>, PDict [(''text'', PStr ''A long text.'')])]"
  let ?outs = "[(2 :: nat, Inr [(''agent'', PStr ''translator''), (''action'', PStr ''translate''), (''translated_text'', PStr ''Hello'')] :: exn + pydict),
      (3, Inr [(''agent'', PStr ''summarizer''), (''action'', PStr ''summarize''), (''summary'', PStr ''A summary.'')])]"
  let ?agg = "[(''translate'', PDict [(''agent'', PStr ''translator''), (''action'', PStr ''translate''), (''translated_text'', PStr ''Hello'')]),
      (''summarize'', PDict [(''agent'', PStr ''summarizer''), (''action'', PStr ''summarize''), (''summary'', PStr ''A summary.'')])]"
  have s: "registry_sound (init main_agents)"
    by (simp add: registry_sound_def init_def index_by_name_def main_agents_def)
  have q1: "fst (parse_natural_language_request ?lib ''Translate, classify and summarize.'' w0) = Inr ?plan"
    by (simp add: eval_simps coroutine_of_def)
  then have q: "parse_natural_language_request ?lib ''Translate, classify and summarize.'' w0 = (Inr ?plan, ?w1)"
    by (simp add: prod_eq_iff)
  have t: "dict_get ?plan ''tasks'' (PList []) = Inr (PList ([task_of ''translate'' ''Bonjour''] @ task_of ''classify'' ''Bonjour'' # [task_of ''summarize'' ''A long text.'']))"
    by (simp add: plan_of_def)
  have a: "dict_get (task_of ''classify'' ''Bonjour'') ''action'' PNone = Inr (PStr ''classify'')"
    by (simp add: task_of_def)
  have u: "lookup_agent (init main_agents) (PStr ''classify'') = Inr None"
    by (simp add: init_def index_by_name_def main_agents_def)
  have b1: "fst (collect (init main_agents) ?lib [task_of ''translate'' ''Bonjour''] [] ?w1) = Inr [(\<lparr>name = ''translator'', cls = TranslatorAgent\<rparr>, PDict [(''text'', PStr ''Bonjour'')])]"
    by (simp add: eval_simps coroutine_of_def)
  then have b: "collect (init main_agents) ?lib [task_of ''translate'' ''Bonjour''] [] ?w1 = (Inr [(\<lparr>name = ''translator'', cls = TranslatorAgent\<rparr>, PDict [(''text'', PStr ''Bonjour'')])], snd (collect (init main_agents) ?lib [task_of ''translate'' ''Bonjour''] [] ?w1))"
    by (simp add: prod_eq_iff)
  have p1: "fst (prepare (init main_agents) ?lib ''Translate, classify and summarize.'' w0) = Inr ?tasks"
    by (simp add: eval_simps coroutine_of_def)
  then have p: "prepare (init main_agents) ?lib ''Translate, classify and summarize.'' w0 = (Inr ?tasks, ?w2)"
    by (simp add: prod_eq_iff)
  have o: "stdout ?w2 = [''[Dispatcher] No matching agent found for action '' @ [CHR 0x27] @ ''classify'' @ [CHR 0x27] @ ''.'']"
    by (simp add: eval_simps coroutine_of_def)
  have r1: "fst (run_all ?lib ?tasks ?w2) = ?outs"
    by (simp add: eval_simps coroutine_of_def)
  then have r: "run_all ?lib ?tasks ?w2 = (?outs, snd (run_all ?lib ?tasks ?w2))"
    by (simp add: prod_eq_iff)
  have f: "first_failure ?outs = None" by simp
  have d1: "fst (dispatch (init main_agents) ?lib ''Translate, classify and summarize.'' w0) = Inr ?agg"
    by (simp add: eval_simps coroutine_of_def)
  from unregistered_action_is_skipped [OF q t a u b] p r f s
  obtain aggregated where
    g: "dispatch (init main_agents) ?lib ''Translate, classify and summarize.'' w0 = (Inr aggregated, snd (run_all ?lib ?tasks ?w2))"
       "map_of aggregated ''classify'' = None" by blast
  from g(1) d1 have "aggregated = ?agg" by simp
  with g(2) s q1 t a u b1 p1 o r1 f d1 show ?thesis by simp
qed

subsection \<open>The shape of the aggregate\<close>

text \<open>
  Claim C10, as stated: every key of the aggregate is one of the four registered actions.
  It fails when an agent answers with another action than the one it is registered for: a
  \<^verbatim>\<open>FinalFormatterAgent\<close> registered under the name \<open>summarizer\<close> serves the task
  \<open>summarize\<close>, and the key of its result is \<open>final_format\<close>.
\<close>

theorem aggregate_key_counterexample:
  "fst (dispatch (init [\<lparr>name = ''summarizer'', cls = FinalFormatterAgent\<rparr>]) (stub [(0, Inr ''PLAN'')] [(''PLAN'', plan_of [task_of ''summarize'' ''A long text.''])]) ''Summarize this.'' w0)
     = Inr [(''final_format'',
             PDict [(''agent'', PStr ''summarizer''), (''action'', PStr ''final_format''),
                    (''formatted_text'', PStr ''No result to format.'')])]
   \<and> ''final_format'' \<notin> set actions"
  by (simp add: eval_simps actions_def)

text \<open>
  Claim C10, amended. Every entry of an aggregate that \<^verbatim>\<open>dispatch\<close> returns maps its key
  \<open>k\<close> to a result dictionary that has an \<open>agent\<close> field and whose \<open>action\<close> field is \<open>k\<close>,
  and \<open>k\<close> is one of the five actions that the classes answer with: the four registered
  ones and \<open>final_format\<close>. With a sound registry, \<open>k\<close> is one of the four.
\<close>

theorem aggregate_entries_shape:
  assumes "dispatch (init ags) lib user_request w = (Inr aggregated, w')"
    and "(k, v) \<in> set aggregated"
  shows "(\<exists>result n. v = PDict result \<and> map_of result ''agent'' = Some (PStr n)
                     \<and> map_of result ''action'' = Some (PStr k))
       \<and> k \<in> set (actions @ [''final_format''])
       \<and> (registry_sound (init ags) \<longrightarrow> k \<in> set actions)"
proof -
  from dispatch_InrD [OF assms(1)] obtain tasks w2 outcomes where
    p: "prepare (init ags) lib user_request w = (Inr tasks, w2)" and
    r: "run_all lib tasks w2 = (outcomes, w')" and
    f: "first_failure outcomes = None" by blast
  from dispatch_aggregate [OF p r f] assms(1)
  have dist: "distinct (map fst aggregated)"
    and m: "\<And>a. map_of aggregated a = last_result a (returned outcomes)" by auto
  from dist assms(2) have "map_of aggregated k = Some v" by simp
  with m have "last_result k (returned outcomes) = Some v" by simp
  from last_result_SomeD [OF this] obtain result where
    res: "result \<in> set (returned outcomes)" "v = PDict result"
         "map_of result ''action'' = Some (PStr k)" by blast
  from res(1) obtain t where "(t, Inr result) \<in> set outcomes" by (auto simp: returned_iff)
  from run_all_fields [OF r this] obtain a where
    a: "a \<in> fst ` set tasks" "map_of result ''action'' = Some (PStr (action_of (cls a)))"
       "map_of result ''agent'' = Some (PStr (name a))" by blast
  from a(2) res(3) have k: "k = action_of (cls a)" by simp
  from a(1) obtain params where "(a, params) \<in> set tasks" by auto
  from prepare_registered [OF p this] obtain b where
    b: "map_of (action_to_agent (init ags)) b = Some (Some a)" by blast
  have "registry_sound (init ags) \<longrightarrow> k \<in> set actions"
    using registry_soundD [OF _ b] init_keys [OF b] k by auto
  moreover have "k \<in> set (actions @ [''final_format''])"
    unfolding k by (rule action_of_five)
  ultimately show ?thesis using res a(3) by blast
qed

theorem aggregate_entries_shape_witness:
  "registry_sound (init main_agents)
   \<and> fst (dispatch (init main_agents) (stub [(0, Inr ''PLAN''), (9, Inr ''Hello''), (5, Inr ''A summary.''), (1, Inr ''Hi'')]
        [(''PLAN'', plan_of [task_of ''translate'' ''Bonjour'', task_of ''summarize'' ''A long text.'',
                             task_of ''translate'' ''Salut''])]) ''Translate both and summarize.'' w0) = Inr [(''translate'', PDict [(''agent'', PStr ''translator''), (''action'', PStr ''translate''), (''translated_text'', PStr ''Hi'')]),
      (''summarize'', PDict [(''agent'', PStr ''summarizer''), (''action'', PStr ''summarize''), (''summary'', PStr ''A summary.'')])]
   \<and> (''translate'', PDict [(''agent'', PStr ''translator''), (''action'', PStr ''translate''), (''translated_text'', PStr ''Hi'')]) \<in> set [(''translate'', PDict [(''agent'', PStr ''translator''), (''action'', PStr ''translate''), (''translated_text'', PStr ''Hi'')]),
      (''summarize'', PDict [(''agent'', PStr ''summarizer''), (''action'', PStr ''summarize''), (''summary'', PStr ''A summary.'')])]
   \<and> map_of [(''agent'', PStr ''translator''), (''action'', PStr ''translate''), (''translated_text'', PStr ''Hi'')] ''agent'' = Some (PStr ''translator'')
   \<and> map_of [(''agent'', PStr ''translator''), (''action'', PStr ''translate''), (''translated_text'', PStr ''Hi'')] ''action'' = Some (PStr ''translate'')
   \<and> ''translate'' \<in> set (actions @ [''final_format''])
   \<and> ''translate'' \<in> set actions"
proof -
  let ?lib = "(stub [(0, Inr ''PLAN''), (9, Inr ''Hello''), (5, Inr ''A summary.''), (1, Inr ''Hi'')]
        [(''PLAN'', plan_of [task_of ''translate'' ''Bonjour'', task_of ''summarize'' ''A long text.'',
                             task_of ''translate'' ''Salut''])])"
  let ?agg = "[(''translate'', PDict [(''agent'', PStr ''translator''), (''action'', PStr ''translate''), (''translated_text'', PStr ''Hi'')]),
      (''summarize'', PDict [(''agent'', PStr ''summarizer''), (''action'', PStr ''summarize''), (''summary'', PStr ''A summary.'')])]"
  have s: "registry_sound (init main_agents)"
    by (simp add: registry_sound_def init_def index_by_name_def main_agents_def)
  have d1: "fst (dispatch (init main_agents) ?lib ''Translate both and summarize.'' w0) = Inr ?agg"
    by (simp add: eval_simps coroutine_of_def)
  then have d: "dispatch (init main_agents) ?lib ''Translate both and summarize.'' w0 = (Inr ?agg, snd (dispatch (init main_agents) ?lib ''Translate both and summarize.'' w0))"
    by (simp add: prod_eq_iff)
  have m: "(''translate'', PDict [(''agent'', PStr ''translator''), (''action'', PStr ''translate''), (''translated_text'', PStr ''Hi'')]) \<in> set ?agg" by simp
  from aggregate_entries_shape [OF d m] s d1 m
  show ?thesis by simp
qed

end
